theory Spec2Isabelle
  imports Main "HOL-Library.Sublist"
begin

section \<open>ticket\_monitor\_action.py: values, exceptions and the outside world\<close>

text \<open>
  The script is one linear procedure with side effects: it reads environment variables,
  reads and writes one state file, issues one HTTP GET, and may open an SMTP session and
  issue one HTTP POST. In the model every function of the script takes the \<open>world\<close>
  (what the script can read: the environment, the files, the answers of the network and
  of the interpreter's libraries) and returns three things: its result, which is a
  raised exception (\<open>Inl\<close>) or a value (\<open>Inr\<close>); the world it leaves; and the events
  it caused, in order. A \<open>try\<close> block of the source is a \<open>catch\<close> in the model, and an
  exception that no block catches reaches the caller.
\<close>

subsection \<open>JSON values and Python truthiness\<close>

text \<open>
  What \<open>json.load\<close> returns: \<open>None\<close>, a bool, an int, a float, a str, a list or a
  dict. A dict is an association list in insertion order with distinct keys. A float is
  named by its \<open>repr\<close> (\<open>JFloat ''0.5''\<close>, \<open>JFloat ''1e+22''\<close>, \<open>JFloat ''nan''\<close>), which
  is different for different floats.
\<close>

datatype json =
    JNull
  | JBool bool
  | JInt int
  | JFloat string
  | JStr string
  | JArr "json list"
  | JObj "(string \<times> json) list"

text \<open>Python's truth value of such a value (\<open>bool(v)\<close>, as \<open>not\<close>, \<open>or\<close> and \<open>if\<close> use it).\<close>

fun truthy :: "json \<Rightarrow> bool" where
  "truthy JNull = False"
| "truthy (JBool b) = b"
| "truthy (JInt n) = (n \<noteq> 0)"
| "truthy (JFloat r) = (r \<noteq> ''0.0'' \<and> r \<noteq> ''-0.0'')"
| "truthy (JStr s) = (s \<noteq> [])"
| "truthy (JArr xs) = (xs \<noteq> [])"
| "truthy (JObj kvs) = (kvs \<noteq> [])"

text \<open>The truth value of an optional string such as \<open>os.environ.get(k)\<close>: set and not empty.\<close>

definition truthy_str :: "string option \<Rightarrow> bool" where
  "truthy_str v = (case v of None \<Rightarrow> False | Some s \<Rightarrow> s \<noteq> [])"

subsection \<open>Exceptions\<close>

text \<open>
  \<open>Exception c m\<close> is an instance of a subclass of \<open>Exception\<close> with class name \<open>c\<close>
  and message \<open>m\<close>; \<open>except Exception\<close> catches exactly these. \<open>SystemExit n\<close> is what
  \<open>sys.exit(n)\<close> raises; it is not a subclass of \<open>Exception\<close>.
\<close>

datatype raised = Exception string string | SystemExit int

text \<open>
  The class name and message of an exception raised by the world (the operating system
  or a library); these are subclasses of \<open>Exception\<close>.
\<close>

type_synonym exc = "string \<times> string"

definition exception :: "exc \<Rightarrow> raised" where
  "exception e = Exception (fst e) (snd e)"

subsection \<open>Events\<close>

text \<open>One constructor for each \<open>log(...)\<close> call site of the source, with the interpolated value.\<close>

datatype log_line =
    Email_incomplete        \<comment> \<open>Email configuration incomplete; skipping email notification.\<close>
  | Email_sent              \<comment> \<open>Email notification sent.\<close>
  | Email_failed raised     \<comment> \<open>Failed to send email: e\<close>
  | Sms_sent                \<comment> \<open>SMS notification sent.\<close>
  | Sms_failed json         \<comment> \<open>SMS failed: data\<close>
  | Sms_error raised        \<comment> \<open>Failed to send SMS: e\<close>
  | Status_code int         \<comment> \<open>Received status code n from event page.\<close>
  | Fetch_error raised      \<comment> \<open>Error fetching event page: e\<close>
  | State_read_failed raised  \<comment> \<open>Failed to read state file: e\<close>
  | State_write_failed raised \<comment> \<open>Failed to write state file: e\<close>
  | Event_url_unset         \<comment> \<open>EVENT\_URL environment variable is not set; exiting.\<close>
  | Tickets_available bool  \<comment> \<open>Tickets available: b\<close>

text \<open>The calls of \<open>smtplib\<close> that \<open>send_email\<close> makes, with their arguments.\<close>

record email_message =
  msg_from :: string
  msg_to :: string
  msg_subject :: string
  msg_body :: string

datatype smtp_call =
    Smtp_connect string int
  | Smtp_starttls
  | Smtp_login string string
  | Smtp_sendmail string "string list" email_message
  | Smtp_quit

text \<open>
  An event is something the script did that is visible outside the function doing it.
  \<open>Enter_send_email\<close> and \<open>Enter_send_sms\<close> are the calls of the two notification
  functions, with their arguments; the others are the calls into the operating system
  and the libraries.
\<close>

datatype event =
    Log log_line
  | Enter_send_email string string
  | Enter_send_sms string
  | Http_get string
  | Http_post string "(string \<times> string) list"
  | Smtp smtp_call
  | File_exists string        \<comment> \<open>\<open>os.path.exists(path)\<close>\<close>
  | File_read string          \<comment> \<open>\<open>open(path, "r")\<close> and the read of its text\<close>
  | File_write string string  \<comment> \<open>\<open>open(path, "w")\<close> and the text handed to it\<close>

subsection \<open>The world\<close>

datatype get_result =
    Get_raises exc           \<comment> \<open>\<open>requests.get\<close> raises (timeout, DNS, connection)\<close>
  | Get_response int string  \<comment> \<open>\<open>status_code\<close> and \<open>text\<close> of the response\<close>

datatype post_result =
    Post_raises exc            \<comment> \<open>\<open>requests.post\<close> raises\<close>
  | Post_response "exc + json" \<comment> \<open>what \<open>resp.json()\<close> raises or returns\<close>

text \<open>
  \<open>files\<close> maps a path that exists to its text. \<open>read_error p\<close> is the exception that
  \<open>open(p, "r", encoding="utf-8")\<close> and the read of the text raise on an existing path,
  if they raise one (a directory, a missing permission, bytes that are not UTF-8).
  \<open>write_file p t\<close> is what \<open>open(p, "w")\<close> and the write of the text \<open>t\<close> do: the
  exception raised, if one is raised, and what is at the path afterwards. At a path
  where a regular file can be written it is \<open>(None, Some t)\<close>; a directory or a missing
  permission gives an exception and leaves the path as it was; a failed write may leave
  a truncated text; a device such as \<open>/dev/null\<close> takes the text and holds none. The
  network is given by
  the answers it will make: \<open>smtp_raises c\<close> is the exception that the SMTP call \<open>c\<close>
  raises, if it raises one.

  A \<open>string\<close> stands for a Python \<open>str\<close>; how a character beyond ASCII is coded in it is
  left open. What \<open>str.lower\<close>, \<open>int\<close> and \<open>json.load\<close> do on ASCII text of moderate
  length is defined below, from their documentation. What they do on other text depends
  on the Unicode tables and the limits of the interpreter, and is taken from the world:
  \<open>lower_other\<close>, \<open>int_other\<close> and \<open>json_other\<close>. The script changes \<open>files\<close> only.
\<close>

record world =
  environ :: "string \<rightharpoonup> string"
  files :: "string \<rightharpoonup> string"
  read_error :: "string \<Rightarrow> exc option"
  write_file :: "string \<Rightarrow> string \<Rightarrow> exc option \<times> string option"
  http_get :: "string \<Rightarrow> get_result"
  http_post :: "string \<Rightarrow> (string \<times> string) list \<Rightarrow> post_result"
  smtp_raises :: "smtp_call \<Rightarrow> exc option"
  lower_other :: "string \<Rightarrow> string"
  int_other :: "string \<Rightarrow> exc + int"
  json_other :: "string \<Rightarrow> exc + json"

type_synonym 'a io = "world \<Rightarrow> (raised + 'a) \<times> world \<times> event list"

definition return :: "'a \<Rightarrow> 'a io" where
  "return x w = (Inr x, w, [])"

definition raise :: "raised \<Rightarrow> 'a io" where
  "raise e w = (Inl e, w, [])"

text \<open>The outcome of a computation that touches nothing: a value or a raised exception.\<close>

definition result :: "raised + 'a \<Rightarrow> 'a io" where
  "result r w = (r, w, [])"

definition emit :: "event \<Rightarrow> unit io" where
  "emit e w = (Inr (), w, [e])"

text \<open>\<open>m\<close>, then \<open>f\<close> on its value; an exception raised by \<open>m\<close> skips \<open>f\<close>.\<close>

definition and_then :: "'a io \<Rightarrow> ('a \<Rightarrow> 'b io) \<Rightarrow> 'b io" where
  "and_then m f w =
     (case m w of
        (Inl e, w', evs) \<Rightarrow> (Inl e, w', evs)
      | (Inr x, w', evs) \<Rightarrow> (case f x w' of (r, w'', evs') \<Rightarrow> (r, w'', evs @ evs')))"

text \<open>\<open>try: m except Exception as e: h e\<close>. A \<open>SystemExit\<close> passes through.\<close>

definition catch :: "'a io \<Rightarrow> (raised \<Rightarrow> 'a io) \<Rightarrow> 'a io" where
  "catch m h w =
     (case m w of
        (Inl (Exception c msg), w', evs) \<Rightarrow>
          (case h (Exception c msg) w' of (r, w'', evs') \<Rightarrow> (r, w'', evs @ evs'))
      | (Inl (SystemExit n), w', evs) \<Rightarrow> (Inl (SystemExit n), w', evs)
      | (Inr x, w', evs) \<Rightarrow> (Inr x, w', evs))"

text \<open>\<open>log(msg)\<close>: print one line. Printing is taken to succeed.\<close>

definition log :: "log_line \<Rightarrow> unit io" where
  "log l = emit (Log l)"

text \<open>\<open>os.environ.get(k)\<close> and \<open>os.environ.get(k, d)\<close>.\<close>

definition getenv :: "string \<Rightarrow> string option io" where
  "getenv k w = (Inr (environ w k), w, [])"

definition getenv_default :: "string \<Rightarrow> string \<Rightarrow> string io" where
  "getenv_default k d w = (Inr (case environ w k of None \<Rightarrow> d | Some v \<Rightarrow> v), w, [])"

section \<open>The library functions the script calls\<close>

subsection \<open>\<open>str.lower\<close>, \<open>in\<close>, \<open>str.split\<close>\<close>

text \<open>Text of ASCII characters only.\<close>

definition ascii :: "string \<Rightarrow> bool" where
  "ascii s = list_all (\<lambda>c. (of_char c :: nat) < 128) s"

text \<open>
  \<open>s.lower()\<close>. On ASCII text it maps the letters \<open>A\<close> to \<open>Z\<close> and nothing else; on any
  other text it is what the world says (\<open>K\<close> as the Kelvin sign becomes \<open>k\<close>, for one).
\<close>

definition lower_char :: "char \<Rightarrow> char" where
  "lower_char c =
     (case map_of (zip ''ABCDEFGHIJKLMNOPQRSTUVWXYZ'' ''abcdefghijklmnopqrstuvwxyz'') c of
        None \<Rightarrow> c
      | Some d \<Rightarrow> d)"

definition lower :: "string \<Rightarrow> string" where
  "lower s = map lower_char s"

definition str_lower :: "world \<Rightarrow> string \<Rightarrow> string" where
  "str_lower w s = (if ascii s then lower s else lower_other w s)"

text \<open>\<open>p in s\<close> on strings is \<open>sublist p s\<close>: \<open>p\<close> occurs in \<open>s\<close> as a contiguous run.\<close>

text \<open>\<open>s.split(sep)\<close> for a separator of one character.\<close>

fun split_on :: "char \<Rightarrow> string \<Rightarrow> string list" where
  "split_on sep [] = [[]]"
| "split_on sep (c # cs) =
     (if c = sep then [] # split_on sep cs
      else (case split_on sep cs of [] \<Rightarrow> [[c]] | x # xs \<Rightarrow> (c # x) # xs))"

subsection \<open>\<open>repr\<close> of ASCII text\<close>

definition hex_digit :: "nat \<Rightarrow> char" where
  "hex_digit d = ''0123456789abcdef'' ! d"

text \<open>One character inside the quotes \<open>q\<close>.\<close>

definition repr_char :: "char \<Rightarrow> char \<Rightarrow> string" where
  "repr_char q c =
     (if c = q \<or> c = CHR 0x5C then [CHR 0x5C, c]
      else if c = CHR 0x09 then [CHR 0x5C, CHR ''t'']
      else if c = CHR 0x0A then [CHR 0x5C, CHR ''n'']
      else if c = CHR 0x0D then [CHR 0x5C, CHR ''r'']
      else if (of_char c :: nat) < 32 \<or> (of_char c :: nat) = 127 then
        [CHR 0x5C, CHR ''x'', hex_digit ((of_char c :: nat) div 16), hex_digit ((of_char c :: nat) mod 16)]
      else [c])"

text \<open>Single quotes, unless the text has a single quote and no double quote.\<close>

definition py_repr :: "string \<Rightarrow> string" where
  "py_repr s =
     (let q = (if CHR 0x27 \<in> set s \<and> CHR 0x22 \<notin> set s then CHR 0x22 else CHR 0x27)
      in q # concat (map (repr_char q) s) @ [q])"

subsection \<open>\<open>int\<close>\<close>

definition is_space :: "char \<Rightarrow> bool" where
  "is_space c = (c \<in> set [CHR '' '', CHR 0x09, CHR 0x0A, CHR 0x0B, CHR 0x0C, CHR 0x0D])"

definition strip :: "string \<Rightarrow> string" where
  "strip s = rev (dropWhile is_space (rev (dropWhile is_space s)))"

definition digit_val :: "char \<Rightarrow> nat option" where
  "digit_val c = map_of (zip ''0123456789'' [0 ..< 10]) c"

text \<open>The digits after the first one; a single underscore may stand between two digits.\<close>

fun int_digits :: "nat \<Rightarrow> string \<Rightarrow> nat option" where
  "int_digits acc [] = Some acc"
| "int_digits acc (c # cs) =
     (if c = CHR ''_'' then
        (case cs of
           [] \<Rightarrow> None
         | d # ds \<Rightarrow>
             (case digit_val d of None \<Rightarrow> None | Some v \<Rightarrow> int_digits (acc * 10 + v) ds))
      else (case digit_val c of None \<Rightarrow> None | Some v \<Rightarrow> int_digits (acc * 10 + v) cs))"

text \<open>An unsigned decimal literal: it starts with a digit.\<close>

definition unsigned :: "string \<Rightarrow> nat option" where
  "unsigned s =
     (case s of
        [] \<Rightarrow> None
      | c # cs \<Rightarrow> (case digit_val c of None \<Rightarrow> None | Some v \<Rightarrow> int_digits v cs))"

text \<open>
  \<open>int(s)\<close> on ASCII text: white space around the literal is dropped, a sign is allowed,
  anything else raises \<open>ValueError\<close>, whose message shows the first 200 characters of
  \<open>repr(s)\<close>.
\<close>

definition int_ascii :: "string \<Rightarrow> raised + int" where
  "int_ascii s =
     (let t = strip s;
          r = (case t of
                 [] \<Rightarrow> None
               | c # cs \<Rightarrow>
                   if c = CHR ''-'' then map_option (\<lambda>n. - int n) (unsigned cs)
                   else if c = CHR ''+'' then map_option int (unsigned cs)
                   else map_option int (unsigned t))
      in case r of
           None \<Rightarrow>
             Inl (Exception ''ValueError''
                    (''invalid literal for int() with base 10: '' @ take 200 (py_repr s)))
         | Some n \<Rightarrow> Inr n)"

text \<open>
  \<open>int(s)\<close>. Beyond ASCII the interpreter also accepts the white space and the decimal
  digits of other scripts, and it refuses a literal with more digits than a limit that
  can be set, to no less than 640; on such text the answer is the world's.
\<close>

definition py_int :: "world \<Rightarrow> string \<Rightarrow> raised + int" where
  "py_int w s =
     (if ascii s \<and> length s \<le> 640 then int_ascii s
      else (case int_other w s of Inl e \<Rightarrow> Inl (exception e) | Inr n \<Rightarrow> Inr n))"

subsection \<open>\<open>dict.get\<close>\<close>

definition dict_get :: "(string \<times> json) list \<Rightarrow> string \<Rightarrow> json" where
  "dict_get kvs k = (case map_of kvs k of None \<Rightarrow> JNull | Some v \<Rightarrow> v)"

fun dict_set :: "string \<Rightarrow> json \<Rightarrow> (string \<times> json) list \<Rightarrow> (string \<times> json) list" where
  "dict_set k v [] = [(k, v)]"
| "dict_set k v ((k', v') # kvs) =
     (if k = k' then (k, v) # kvs else (k', v') # dict_set k v kvs)"

text \<open>The name of the Python type of a value.\<close>

fun type_name :: "json \<Rightarrow> string" where
  "type_name JNull = ''NoneType''"
| "type_name (JBool b) = ''bool''"
| "type_name (JInt n) = ''int''"
| "type_name (JFloat r) = ''float''"
| "type_name (JStr s) = ''str''"
| "type_name (JArr xs) = ''list''"
| "type_name (JObj kvs) = ''dict''"

text \<open>
  \<open>x.get(k)\<close> on a value that \<open>json.load\<close> returned: only a dict has the method, on
  anything else the attribute lookup raises \<open>AttributeError\<close>. A missing key gives
  \<open>None\<close>, which is \<open>JNull\<close>.
\<close>

definition no_get :: "json \<Rightarrow> raised" where
  "no_get v =
     Exception ''AttributeError''
       ([CHR 0x27] @ type_name v @ [CHR 0x27] @ '' object has no attribute ''
          @ [CHR 0x27] @ ''get'' @ [CHR 0x27])"

fun py_get :: "json \<Rightarrow> string \<Rightarrow> raised + json" where
  "py_get (JObj kvs) k = Inr (dict_get kvs k)"
| "py_get v k = Inl (no_get v)"

subsection \<open>\<open>json.dump\<close> and \<open>json.load\<close>\<close>

text \<open>
  The text that \<open>json.dump\<close> writes with its default separators. In a string the
  quotation mark, the backslash and the characters outside the range from the space to
  the tilde are escaped; the escape of a character beyond ASCII, which shows its code
  point, is not modelled (the script writes no such string).
\<close>

definition digit_char :: "nat \<Rightarrow> char" where
  "digit_char d = ''0123456789'' ! d"

function str_nat :: "nat \<Rightarrow> string" where
  "str_nat n = (if n < 10 then [digit_char n] else str_nat (n div 10) @ [digit_char (n mod 10)])"
  by pat_completeness auto
termination
  by (relation "measure (\<lambda>n. n)") auto

definition str_int :: "int \<Rightarrow> string" where
  "str_int i = (if i < 0 then CHR ''-'' # str_nat (nat (- i)) else str_nat (nat i))"

definition escape_char :: "char \<Rightarrow> string" where
  "escape_char c =
     (if c = CHR 0x22 \<or> c = CHR 0x5C then [CHR 0x5C, c]
      else if c = CHR 0x0A then [CHR 0x5C, CHR ''n'']
      else if c = CHR 0x0D then [CHR 0x5C, CHR ''r'']
      else if c = CHR 0x09 then [CHR 0x5C, CHR ''t'']
      else if c = CHR 0x08 then [CHR 0x5C, CHR ''b'']
      else if c = CHR 0x0C then [CHR 0x5C, CHR ''f'']
      else if (of_char c :: nat) < 32 \<or> (of_char c :: nat) = 127 then
        [CHR 0x5C, CHR ''u'', CHR ''0'', CHR ''0'',
         hex_digit ((of_char c :: nat) div 16), hex_digit ((of_char c :: nat) mod 16)]
      else [c])"

definition quote :: "string \<Rightarrow> string" where
  "quote s = CHR 0x22 # concat (map escape_char s) @ [CHR 0x22]"

fun join :: "string \<Rightarrow> string list \<Rightarrow> string" where
  "join sep [] = []"
| "join sep [x] = x"
| "join sep (x # y # ys) = x @ sep @ join sep (y # ys)"

fun json_dumps :: "json \<Rightarrow> string" where
  "json_dumps JNull = ''null''"
| "json_dumps (JBool b) = (if b then ''true'' else ''false'')"
| "json_dumps (JInt i) = str_int i"
| "json_dumps (JFloat r) =
     (if r = ''nan'' then ''NaN'' else if r = ''inf'' then ''Infinity''
      else if r = ''-inf'' then ''-Infinity'' else r)"
| "json_dumps (JStr s) = quote s"
| "json_dumps (JArr xs) = ''['' @ join '', '' (map json_dumps xs) @ '']''"
| "json_dumps (JObj kvs) =
     ''{'' @ join '', '' (map (\<lambda>kv. quote (fst kv) @ '': '' @ json_dumps (snd kv)) kvs) @ ''}''"

text \<open>
  A recursive-descent reader of the JSON grammar, on the fragment without fractions,
  exponents, \<open>NaN\<close>, \<open>Infinity\<close>, \<open>\u\<close> escapes and characters beyond ASCII. On a text
  that it accepts it returns the value that \<open>json.loads\<close> returns; a text that it does
  not accept may still be one that \<open>json.loads\<close> accepts. The first argument of the three
  mutually recursive functions bounds the number of nested calls.
\<close>

definition is_ws :: "char \<Rightarrow> bool" where
  "is_ws c = (c \<in> set [CHR '' '', CHR 0x09, CHR 0x0A, CHR 0x0D])"

definition skip_ws :: "string \<Rightarrow> string" where
  "skip_ws s = dropWhile is_ws s"

definition unescape :: "char \<Rightarrow> char option" where
  "unescape e =
     map_of [(CHR 0x22, CHR 0x22), (CHR 0x5C, CHR 0x5C), (CHR ''/'', CHR ''/''),
             (CHR ''b'', CHR 0x08), (CHR ''f'', CHR 0x0C), (CHR ''n'', CHR 0x0A),
             (CHR ''r'', CHR 0x0D), (CHR ''t'', CHR 0x09)] e"

definition plain_char :: "char \<Rightarrow> bool" where
  "plain_char c = (32 \<le> (of_char c :: nat) \<and> (of_char c :: nat) < 128)"

text \<open>The rest of a string literal after its opening quotation mark.\<close>

fun scan_string :: "string \<Rightarrow> string \<Rightarrow> (string \<times> string) option" where
  "scan_string acc [] = None"
| "scan_string acc (c # cs) =
     (if c = CHR 0x22 then Some (acc, cs)
      else if c = CHR 0x5C then
        (case cs of
           [] \<Rightarrow> None
         | e # r \<Rightarrow>
             (case unescape e of None \<Rightarrow> None | Some d \<Rightarrow> scan_string (acc @ [d]) r))
      else if plain_char c then scan_string (acc @ [c]) cs
      else None)"

definition is_digit :: "char \<Rightarrow> bool" where
  "is_digit c = (digit_val c \<noteq> None)"

text \<open>An integer literal: an optional minus, then \<open>0\<close> or a run of digits that does not start with \<open>0\<close>.\<close>

definition scan_number :: "string \<Rightarrow> (json \<times> string) option" where
  "scan_number s =
     (let neg = (case s of [] \<Rightarrow> False | c # cs \<Rightarrow> c = CHR ''-'');
          t = (if neg then tl s else s);
          ds = (case t of [] \<Rightarrow> [] | c # cs \<Rightarrow> if c = CHR ''0'' then [c] else takeWhile is_digit t);
          r = drop (length ds) t
      in if (case r of [] \<Rightarrow> False | c # cs \<Rightarrow> c \<in> set ''.eE'') then None
         else (case unsigned ds of
                 None \<Rightarrow> None
               | Some n \<Rightarrow> Some (JInt (if neg then - int n else int n), r)))"

fun parse_value :: "nat \<Rightarrow> string \<Rightarrow> (json \<times> string) option"
  and parse_elements :: "nat \<Rightarrow> json list \<Rightarrow> string \<Rightarrow> (json \<times> string) option"
  and parse_members :: "nat \<Rightarrow> (string \<times> json) list \<Rightarrow> string \<Rightarrow> (json \<times> string) option"
where
  "parse_value 0 s = None"
| "parse_value (Suc n) s =
     (case s of
        [] \<Rightarrow> None
      | c # cs \<Rightarrow>
          if c = CHR 0x22 then map_option (\<lambda>(t, r). (JStr t, r)) (scan_string [] cs)
          else if c = CHR ''{'' then
            (case skip_ws cs of
               [] \<Rightarrow> None
             | d # ds \<Rightarrow> if d = CHR ''}'' then Some (JObj [], ds) else parse_members n [] (d # ds))
          else if c = CHR ''['' then
            (case skip_ws cs of
               [] \<Rightarrow> None
             | d # ds \<Rightarrow> if d = CHR '']'' then Some (JArr [], ds) else parse_elements n [] (d # ds))
          else if prefix ''null'' s then Some (JNull, drop 4 s)
          else if prefix ''true'' s then Some (JBool True, drop 4 s)
          else if prefix ''false'' s then Some (JBool False, drop 5 s)
          else scan_number s)"
| "parse_elements 0 acc s = None"
| "parse_elements (Suc n) acc s =
     (case parse_value n s of
        None \<Rightarrow> None
      | Some (v, r) \<Rightarrow>
          (case skip_ws r of
             [] \<Rightarrow> None
           | c # cs \<Rightarrow>
               if c = CHR '','' then parse_elements n (acc @ [v]) (skip_ws cs)
               else if c = CHR '']'' then Some (JArr (acc @ [v]), cs)
               else None))"
| "parse_members 0 acc s = None"
| "parse_members (Suc n) acc s =
     (case s of
        [] \<Rightarrow> None
      | c # cs \<Rightarrow>
          if c \<noteq> CHR 0x22 then None
          else
            (case scan_string [] cs of
               None \<Rightarrow> None
             | Some (k, r) \<Rightarrow>
                 (case skip_ws r of
                    [] \<Rightarrow> None
                  | d # ds \<Rightarrow>
                      if d \<noteq> CHR '':'' then None
                      else
                        (case parse_value n (skip_ws ds) of
                           None \<Rightarrow> None
                         | Some (v, r') \<Rightarrow>
                             (case skip_ws r' of
                                [] \<Rightarrow> None
                              | e # es \<Rightarrow>
                                  if e = CHR '','' then parse_members n (dict_set k v acc) (skip_ws es)
                                  else if e = CHR ''}'' then Some (JObj (dict_set k v acc), es)
                                  else None)))))"

text \<open>
  The reader on ASCII text of at most 256 characters, which keeps the nesting and the
  integer literals far below the limits of the interpreter.
\<close>

definition json_ascii :: "string \<Rightarrow> json option" where
  "json_ascii s =
     (if ascii s \<and> length s \<le> 256 then
        (case parse_value (Suc (length s)) (skip_ws s) of
           None \<Rightarrow> None
         | Some (v, r) \<Rightarrow> if skip_ws r = [] then Some v else None)
      else None)"

text \<open>
  \<open>json.loads(s)\<close>: the value that the reader finds and, on a text that the reader
  does not accept, what the world says: a value, or the exception raised
  (\<open>JSONDecodeError\<close>, \<open>RecursionError\<close>, \<open>ValueError\<close>).
\<close>

definition json_loads :: "world \<Rightarrow> string \<Rightarrow> raised + json" where
  "json_loads w s =
     (case json_ascii s of
        Some v \<Rightarrow> Inr v
      | None \<Rightarrow> (case json_other w s of Inl e \<Rightarrow> Inl (exception e) | Inr v \<Rightarrow> Inr v))"

section \<open>The functions of ticket\_monitor\_action.py\<close>

subsection \<open>\<open>send_email\<close>\<close>

text \<open>One call of \<open>smtplib\<close>: it is recorded, and raises if the world says so.\<close>

definition smtp :: "smtp_call \<Rightarrow> unit io" where
  "smtp c w =
     (case smtp_raises w c of
        None \<Rightarrow> (Inr (), w, [Smtp c])
      | Some e \<Rightarrow> (Inl (exception e), w, [Smtp c]))"

text \<open>\<open>int(s)\<close>, \<open>s.lower()\<close> and \<open>json.loads(s)\<close> as steps of a computation.\<close>

definition int_of :: "string \<Rightarrow> int io" where
  "int_of s w = (py_int w s, w, [])"

definition lower_of :: "string \<Rightarrow> string io" where
  "lower_of s w = (Inr (str_lower w s), w, [])"

definition loads :: "string \<Rightarrow> json io" where
  "loads s w = (json_loads w s, w, [])"

text \<open>
  The settings are read, and the port converted with \<open>int\<close>, before the \<open>try\<close> block;
  the block holds the SMTP session only. Building the MIME message is taken not to raise.
\<close>

definition send_email :: "string \<Rightarrow> string \<Rightarrow> unit io" where
  "send_email subject message =
     and_then (emit (Enter_send_email subject message)) (\<lambda>_.
     and_then (getenv ''SMTP_SERVER'') (\<lambda>smtp_server.
     and_then (getenv_default ''SMTP_PORT'' ''587'') (\<lambda>port.
     and_then (int_of port) (\<lambda>smtp_port.
     and_then (getenv ''SMTP_USERNAME'') (\<lambda>username.
     and_then (getenv ''SMTP_PASSWORD'') (\<lambda>password.
     and_then (getenv ''EMAIL_FROM'') (\<lambda>email_from.
     and_then (getenv ''EMAIL_TO'') (\<lambda>to_addrs.
     let from_addr = (case email_from of None \<Rightarrow> username | Some a \<Rightarrow> Some a)
     in if \<not> list_all truthy_str [smtp_server, username, password, to_addrs] then
          log Email_incomplete
        else
          let msg = \<lparr>msg_from = the from_addr, msg_to = the to_addrs,
                     msg_subject = subject, msg_body = message\<rparr>
          in catch
               (and_then (smtp (Smtp_connect (the smtp_server) smtp_port)) (\<lambda>_.
                and_then (smtp Smtp_starttls) (\<lambda>_.
                and_then (smtp (Smtp_login (the username) (the password))) (\<lambda>_.
                and_then (smtp (Smtp_sendmail (the from_addr)
                                  (split_on CHR '','' (the to_addrs)) msg)) (\<lambda>_.
                and_then (smtp Smtp_quit) (\<lambda>_.
                log Email_sent))))))
               (\<lambda>e. log (Email_failed e))))))))))"

subsection \<open>\<open>send_sms\<close>\<close>

definition requests_post :: "string \<Rightarrow> (string \<times> string) list \<Rightarrow> (exc + json) io" where
  "requests_post url data w =
     (case http_post w url data of
        Post_raises e \<Rightarrow> (Inl (exception e), w, [Http_post url data])
      | Post_response r \<Rightarrow> (Inr r, w, [Http_post url data]))"

text \<open>\<open>resp.json()\<close>.\<close>

definition resp_json :: "exc + json \<Rightarrow> json io" where
  "resp_json r = result (case r of Inl e \<Rightarrow> Inl (exception e) | Inr v \<Rightarrow> Inr v)"

definition send_sms :: "string \<Rightarrow> unit io" where
  "send_sms message =
     and_then (emit (Enter_send_sms message)) (\<lambda>_.
     and_then (getenv ''SMS_PHONE'') (\<lambda>phone.
     if \<not> truthy_str phone then return ()
     else
       and_then (getenv_default ''TEXTBELT_KEY'' ''textbelt'') (\<lambda>key.
       catch
         (and_then (requests_post ''https://textbelt.com/text''
                      [(''phone'', the phone), (''message'', message), (''key'', key)]) (\<lambda>resp.
          and_then (resp_json resp) (\<lambda>data.
          and_then (result (py_get data ''success'')) (\<lambda>success.
          if truthy success then log Sms_sent
          else log (Sms_failed data)))))
         (\<lambda>e. log (Sms_error e)))))"

subsection \<open>\<open>check_tickets\<close>\<close>

definition no_phrases :: "string list" where
  "no_phrases =
     [''sorry, we don't currently have any tickets'',
      ''no results found'',
      ''alerts not currently available'']"

text \<open>
  The \<open>for\<close> loop over \<open>no_phrases\<close>: \<open>False\<close> at the first phrase found in the page,
  \<open>True\<close> when the list is exhausted.
\<close>

fun scan_phrases :: "string list \<Rightarrow> string \<Rightarrow> bool" where
  "scan_phrases [] html = True"
| "scan_phrases (phrase # rest) html =
     (if sublist phrase html then False else scan_phrases rest html)"

text \<open>\<open>requests.get(url, headers=headers, timeout=30)\<close>: the status code and the text.\<close>

definition requests_get :: "string \<Rightarrow> (int \<times> string) io" where
  "requests_get url w =
     (case http_get w url of
        Get_raises e \<Rightarrow> (Inl (exception e), w, [Http_get url])
      | Get_response status_code text \<Rightarrow> (Inr (status_code, text), w, [Http_get url]))"

definition check_tickets :: "string \<Rightarrow> bool io" where
  "check_tickets url =
     catch
       (and_then (requests_get url) (\<lambda>response.
        if fst response \<noteq> 200 then
          and_then (log (Status_code (fst response))) (\<lambda>_. return False)
        else
          and_then (lower_of (snd response)) (\<lambda>html.
          return (scan_phrases no_phrases html))))
       (\<lambda>e. and_then (log (Fetch_error e)) (\<lambda>_. return False))"

subsection \<open>\<open>load_state\<close> and \<open>save_state\<close>\<close>

text \<open>\<open>os.path.exists(path)\<close>.\<close>

definition path_exists :: "string \<Rightarrow> bool io" where
  "path_exists path w = (Inr (files w path \<noteq> None), w, [File_exists path])"

text \<open>
  \<open>open(path, "r", encoding="utf-8")\<close> and the read of the whole text. On a path that
  does not exist the message is the one for a path of ASCII characters; \<open>load_state\<close>
  does not come here with such a path, it asks \<open>os.path.exists\<close> first.
\<close>

definition read_text :: "string \<Rightarrow> string io" where
  "read_text path w =
     (case files w path of
        None \<Rightarrow>
          (Inl (Exception ''FileNotFoundError''
                  (''[Errno 2] No such file or directory: '' @ py_repr path)),
           w, [File_read path])
      | Some text \<Rightarrow>
          (case read_error w path of
             None \<Rightarrow> (Inr text, w, [File_read path])
           | Some e \<Rightarrow> (Inl (exception e), w, [File_read path])))"

text \<open>\<open>open(path, "w", encoding="utf-8")\<close> and the write of the text.\<close>

definition write_text :: "string \<Rightarrow> string \<Rightarrow> unit io" where
  "write_text path text w =
     (case write_file w path text of
        (None, left) \<Rightarrow>
          (Inr (), w\<lparr>files := (files w)(path := left)\<rparr>, [File_write path text])
      | (Some e, left) \<Rightarrow>
          (Inl (exception e), w\<lparr>files := (files w)(path := left)\<rparr>, [File_write path text]))"

text \<open>The value returned is a JSON value; Python's \<open>None\<close> is \<open>JNull\<close>.\<close>

definition load_state :: "string \<Rightarrow> json io" where
  "load_state path =
     and_then (path_exists path) (\<lambda>exists.
     if \<not> exists then return JNull
     else
       catch
         (and_then (read_text path) (\<lambda>text. loads text))
         (\<lambda>e. and_then (log (State_read_failed e)) (\<lambda>_. return JNull)))"

definition save_state :: "string \<Rightarrow> json \<Rightarrow> unit io" where
  "save_state path state =
     catch (write_text path (json_dumps state))
       (\<lambda>e. log (State_write_failed e))"

subsection \<open>\<open>main\<close>\<close>

definition subject :: string where
  "subject = ''Twickets Alert: Tickets Available!''"

definition body :: "string \<Rightarrow> string" where
  "body event_url =
     ''Tickets are now available for your event!'' @ [CHR 0x0A] @
     ''Event URL: '' @ event_url @ [CHR 0x0A, CHR 0x0A] @
     ''Please visit the page quickly to purchase them.'' @ [CHR 0x0A] @
     ''This is an automated notification.''"

text \<open>\<open>event_url\<close> is \<open>None\<close> when the variable is unset; \<open>not event_url\<close> holds then and for the empty string.\<close>

definition main :: "unit io" where
  "main =
     and_then (getenv ''EVENT_URL'') (\<lambda>event_url.
     if \<not> truthy_str event_url then
       and_then (log Event_url_unset) (\<lambda>_. raise (SystemExit 1))
     else
       and_then (getenv_default ''STATE_FILE'' ''state.json'') (\<lambda>state_file.
       and_then (load_state state_file) (\<lambda>loaded.
       let state = (if truthy loaded then loaded else JObj [])
       in and_then (result (py_get state ''has_tickets'')) (\<lambda>last_status.
          and_then (check_tickets (the event_url)) (\<lambda>has_tickets.
          and_then (log (Tickets_available has_tickets)) (\<lambda>_.
          and_then
            (if has_tickets \<and> \<not> truthy last_status then
               and_then (send_email subject (body (the event_url))) (\<lambda>_.
               send_sms (body (the event_url)))
             else return ()) (\<lambda>_.
          save_state state_file (JObj [(''has_tickets'', JBool has_tickets)]))))))))"

text \<open>
  The exit status of the process that runs \<open>main()\<close>: 0 when it returns, the argument
  of \<open>sys.exit\<close>, and 1 after a traceback when an exception reaches the top.
\<close>

definition exit_status :: "raised + unit \<Rightarrow> int" where
  "exit_status r =
     (case r of Inr _ \<Rightarrow> 0 | Inl (SystemExit n) \<Rightarrow> n | Inl (Exception c m) \<Rightarrow> 1)"

section \<open>Observations on a run\<close>

text \<open>
  The calls of \<open>send_email\<close> (subject and message), the calls of \<open>send_sms\<close> (message)
  and the writes (path and text) among the events of a run, in order.
\<close>

fun email_calls :: "event list \<Rightarrow> (string \<times> string) list" where
  "email_calls [] = []"
| "email_calls (Enter_send_email s m # evs) = (s, m) # email_calls evs"
| "email_calls (e # evs) = email_calls evs"

fun sms_calls :: "event list \<Rightarrow> string list" where
  "sms_calls [] = []"
| "sms_calls (Enter_send_sms m # evs) = m # sms_calls evs"
| "sms_calls (e # evs) = sms_calls evs"

fun file_writes :: "event list \<Rightarrow> (string \<times> string) list" where
  "file_writes [] = []"
| "file_writes (File_write p t # evs) = (p, t) # file_writes evs"
| "file_writes (e # evs) = file_writes evs"

text \<open>Events that are neither a notification call nor a write.\<close>

definition quiet :: "event list \<Rightarrow> bool" where
  "quiet evs \<longleftrightarrow> email_calls evs = [] \<and> sms_calls evs = [] \<and> file_writes evs = []"

definition outcome :: "(raised + 'a) \<times> world \<times> event list \<Rightarrow> raised + 'a" where
  "outcome r = fst r"

definition world_after :: "(raised + 'a) \<times> world \<times> event list \<Rightarrow> world" where
  "world_after r = fst (snd r)"

definition events :: "(raised + 'a) \<times> world \<times> event list \<Rightarrow> event list" where
  "events r = snd (snd r)"

text \<open>The dict that \<open>main\<close> hands to \<open>save_state\<close>.\<close>

definition state_of :: "bool \<Rightarrow> json" where
  "state_of b = JObj [(''has_tickets'', JBool b)]"

text \<open>The path of the state file: \<open>os.environ.get("STATE_FILE", "state.json")\<close>.\<close>

definition state_path :: "world \<Rightarrow> string" where
  "state_path w = (case environ w ''STATE_FILE'' of None \<Rightarrow> ''state.json'' | Some v \<Rightarrow> v)"

text \<open>The value of \<open>SMTP_PORT\<close> that \<open>send_email\<close> converts: \<open>os.environ.get("SMTP_PORT", "587")\<close>.\<close>

definition port_setting :: "world \<Rightarrow> string" where
  "port_setting w = (case environ w ''SMTP_PORT'' of None \<Rightarrow> ''587'' | Some v \<Rightarrow> v)"

text \<open>
  Reading the file at a path raises nothing; writing a text at a path raises nothing
  and leaves a file that holds the text.
\<close>

definition readable :: "world \<Rightarrow> string \<Rightarrow> bool" where
  "readable w p \<longleftrightarrow> read_error w p = None"

definition stores :: "world \<Rightarrow> string \<Rightarrow> string \<Rightarrow> bool" where
  "stores w p t \<longleftrightarrow> write_file w p t = (None, Some t)"

text \<open>What the event page shows: the value that \<open>check_tickets\<close> returns in this world.\<close>

definition page_available :: "world \<Rightarrow> string \<Rightarrow> bool" where
  "page_available w url = (outcome (check_tickets url w) = Inr True)"

text \<open>
  Lines 194 to 210 of \<open>main\<close>: what it does once \<open>last_status\<close> is known. Lemma
  \<open>main_eq\<close> below shows that \<open>main\<close> is \<open>load_state\<close>, the lookup of \<open>has_tickets\<close>
  and then this.
\<close>

definition after_load :: "string \<Rightarrow> string \<Rightarrow> json \<Rightarrow> unit io" where
  "after_load event_url state_file last_status =
     and_then (check_tickets event_url) (\<lambda>has_tickets.
     and_then (log (Tickets_available has_tickets)) (\<lambda>_.
     and_then
       (if has_tickets \<and> \<not> truthy last_status then
          and_then (send_email subject (body event_url)) (\<lambda>_.
          send_sms (body event_url))
        else return ()) (\<lambda>_.
     save_state state_file (JObj [(''has_tickets'', JBool has_tickets)]))))"

text \<open>
  Two worlds that differ in their files at most, and a computation whose result and
  events do not depend on the files (it may write them, it does not read them).
\<close>

definition agree :: "world \<Rightarrow> world \<Rightarrow> bool" where
  "agree w w' \<longleftrightarrow> w' = w\<lparr>files := files w'\<rparr>"

definition files_blind :: "'a io \<Rightarrow> bool" where
  "files_blind m \<longleftrightarrow>
     (\<forall>w w'. agree w w' \<longrightarrow>
        outcome (m w) = outcome (m w') \<and> events (m w) = events (m w')
        \<and> agree (world_after (m w)) (world_after (m w')))"

section \<open>Worlds used in the examples\<close>

text \<open>
  A world with an empty environment and no files, in which every file operation and
  every network call succeeds and the event page lists tickets. The examples use ASCII
  text that the JSON reader accepts, so that the last three fields play no part in them.
\<close>

definition plain_world :: world where
  "plain_world =
     \<lparr>environ = Map.empty,
      files = Map.empty,
      read_error = (\<lambda>_. None),
      write_file = (\<lambda>_ t. (None, Some t)),
      http_get = (\<lambda>_. Get_response 200 ''2 tickets from 40 pounds''),
      http_post = (\<lambda>_ _. Post_response (Inr (JObj [(''success'', JBool True)]))),
      smtp_raises = (\<lambda>_. None),
      lower_other = lower,
      int_other = (\<lambda>_. Inl (''ValueError'', ''invalid literal for int() with base 10'')),
      json_other = (\<lambda>_. Inl (''JSONDecodeError'', ''Expecting value''))\<rparr>"

definition example_url :: string where
  "example_url = ''https://tickets.example/event/1''"

text \<open>The same with \<open>EVENT_URL\<close> set: the first run of a monitor, with no state file yet.\<close>

definition monitored_world :: world where
  "monitored_world = plain_world\<lparr>environ := [''EVENT_URL'' \<mapsto> example_url]\<rparr>"

text \<open>The first run of a monitor whose \<open>SMTP_PORT\<close> is not a number.\<close>

definition bad_port_world :: world where
  "bad_port_world =
     plain_world\<lparr>environ := [''EVENT_URL'' \<mapsto> example_url, ''SMTP_PORT'' \<mapsto> ''abc'',
                              ''SMS_PHONE'' \<mapsto> ''447912345678'']\<rparr>"

text \<open>A monitor whose state file holds a JSON array.\<close>

definition array_state_world :: world where
  "array_state_world = monitored_world\<lparr>files := [''state.json'' \<mapsto> ''[1]'']\<rparr>"

text \<open>A world with all the mail settings but the port.\<close>

definition no_port_world :: world where
  "no_port_world =
     plain_world\<lparr>environ := [''SMTP_SERVER'' \<mapsto> ''smtp.example.com'',
                              ''SMTP_USERNAME'' \<mapsto> ''me@example.com'',
                              ''SMTP_PASSWORD'' \<mapsto> ''secret'',
                              ''EMAIL_TO'' \<mapsto> ''a@example.com,b@example.com'']\<rparr>"

text \<open>Monitors whose state file holds the string \<open>"false"\<close> and the number \<open>0\<close>.\<close>

definition string_state_world :: world where
  "string_state_world =
     monitored_world\<lparr>files := [''state.json'' \<mapsto> ''{\"has_tickets\": \"false\"}'']\<rparr>"

definition zero_state_world :: world where
  "zero_state_world = monitored_world\<lparr>files := [''state.json'' \<mapsto> ''{\"has_tickets\": 0}'']\<rparr>"


section \<open>Basic facts\<close>

lemmas io_defs = return_def raise_def result_def emit_def and_then_def catch_def log_def
  getenv_def getenv_default_def int_of_def lower_of_def loads_def

lemmas obs_defs = outcome_def world_after_def events_def

lemma email_calls_append: "email_calls (xs @ ys) = email_calls xs @ email_calls ys"
  by (induction xs rule: email_calls.induct) auto

lemma sms_calls_append: "sms_calls (xs @ ys) = sms_calls xs @ sms_calls ys"
  by (induction xs rule: sms_calls.induct) auto

lemma file_writes_append: "file_writes (xs @ ys) = file_writes xs @ file_writes ys"
  by (induction xs rule: file_writes.induct) auto

lemma and_then_emit:
  "and_then (emit e) f w = (case f () w of (r, w', evs) \<Rightarrow> (r, w', e # evs))"
  by (simp add: and_then_def emit_def)

lemma and_then_log:
  "and_then (log l) f w = (case f () w of (r, w', evs) \<Rightarrow> (r, w', Log l # evs))"
  by (simp add: and_then_def emit_def log_def)

lemma and_then_getenv: "and_then (getenv k) f w = f (environ w k) w"
  by (simp add: and_then_def getenv_def split: prod.splits)

lemma and_then_getenv_default:
  "and_then (getenv_default k d) f w = f (case environ w k of None \<Rightarrow> d | Some v \<Rightarrow> v) w"
  by (simp add: and_then_def getenv_default_def split: prod.splits)

lemma and_then_result_Inr: "and_then (result (Inr x)) f w = f x w"
  by (simp add: and_then_def result_def split: prod.splits)

lemma and_then_result_Inl: "and_then (result (Inl e)) f w = (Inl e, w, [])"
  by (simp add: and_then_def result_def)

lemma and_then_return: "and_then (return x) f w = f x w"
  by (simp add: and_then_def return_def split: prod.splits)

lemmas io_laws = and_then_emit and_then_log and_then_getenv and_then_getenv_default
  and_then_result_Inr and_then_result_Inl and_then_return

section \<open>The availability checker\<close>




lemma check_tickets_eq:
  "check_tickets url w =
     (Inr (case http_get w url of
             Get_raises e \<Rightarrow> False
           | Get_response n text \<Rightarrow> n = 200 \<and> scan_phrases no_phrases (str_lower w text)),
      w,
      Http_get url #
        (case http_get w url of
           Get_raises e \<Rightarrow> [Log (Fetch_error (exception e))]
         | Get_response n text \<Rightarrow> if n \<noteq> 200 then [Log (Status_code n)] else []))"
  by (simp add: check_tickets_def requests_get_def io_defs exception_def split: get_result.splits)



text \<open>
  C3. When the fetch raises an exception, and when the response has a status other than
  200, \<open>check_tickets\<close> returns \<open>False\<close>: it does not raise and does not return \<open>True\<close>. It
  leaves the world as it was and logs one line with the exception or the status code.
\<close>

theorem check_tickets_fail_safe:
  "(http_get w url = Get_raises e \<longrightarrow>
      check_tickets url w = (Inr False, w, [Http_get url, Log (Fetch_error (exception e))]))
   \<and> (http_get w url = Get_response n text \<and> n \<noteq> 200 \<longrightarrow>
      check_tickets url w = (Inr False, w, [Http_get url, Log (Status_code n)]))"
  by (simp add: check_tickets_eq)

theorem check_tickets_fail_safe_witness:
  "http_get (plain_world\<lparr>http_get := (\<lambda>_. Get_raises (''ConnectionError'', ''refused''))\<rparr>) example_url
     = Get_raises (''ConnectionError'', ''refused'')
   \<and> check_tickets example_url
        (plain_world\<lparr>http_get := (\<lambda>_. Get_raises (''ConnectionError'', ''refused''))\<rparr>)
     = (Inr False,
        plain_world\<lparr>http_get := (\<lambda>_. Get_raises (''ConnectionError'', ''refused''))\<rparr>,
        [Http_get example_url, Log (Fetch_error (Exception ''ConnectionError'' ''refused''))])
   \<and> http_get (plain_world\<lparr>http_get := (\<lambda>_. Get_response 503 ''busy'')\<rparr>) example_url
     = Get_response 503 ''busy''
   \<and> (503 :: int) \<noteq> 200
   \<and> check_tickets example_url (plain_world\<lparr>http_get := (\<lambda>_. Get_response 503 ''busy'')\<rparr>)
     = (Inr False, plain_world\<lparr>http_get := (\<lambda>_. Get_response 503 ''busy'')\<rparr>,
        [Http_get example_url, Log (Status_code 503)])"
  using check_tickets_fail_safe
          [of "plain_world\<lparr>http_get := (\<lambda>_. Get_raises (''ConnectionError'', ''refused''))\<rparr>"
              example_url "(''ConnectionError'', ''refused'')" 0 "[]"]
        check_tickets_fail_safe
          [of "plain_world\<lparr>http_get := (\<lambda>_. Get_response 503 ''busy'')\<rparr>"
              example_url "(''x'', ''y'')" 503 "''busy''"]
  by (simp add: exception_def)

section \<open>The orchestrator\<close>

text \<open>
  C4. If \<open>EVENT_URL\<close> is unset or empty, \<open>main\<close> logs one line and exits with status 1.
  Nothing else happens: the log line is the only event of the run (no page fetch, no
  notification call, no read or write of the state file) and the world is unchanged.
\<close>

theorem main_event_url_unset:
  assumes "environ w ''EVENT_URL'' = None \<or> environ w ''EVENT_URL'' = Some []"
  shows "main w = (Inl (SystemExit 1), w, [Log Event_url_unset])
         \<and> exit_status (outcome (main w)) = 1"
  using assms
  by (auto simp add: main_def io_laws raise_def truthy_str_def exit_status_def outcome_def)

theorem main_event_url_unset_witness:
  "(environ plain_world ''EVENT_URL'' = None \<or> environ plain_world ''EVENT_URL'' = Some [])
   \<and> main plain_world = (Inl (SystemExit 1), plain_world, [Log Event_url_unset])
   \<and> exit_status (outcome (main plain_world)) = 1
   \<and> (environ (plain_world\<lparr>environ := [''EVENT_URL'' \<mapsto> []]\<rparr>) ''EVENT_URL'' = None
        \<or> environ (plain_world\<lparr>environ := [''EVENT_URL'' \<mapsto> []]\<rparr>) ''EVENT_URL'' = Some [])
   \<and> exit_status (outcome (main (plain_world\<lparr>environ := [''EVENT_URL'' \<mapsto> []]\<rparr>))) = 1"
proof -
  have a: "environ plain_world ''EVENT_URL'' = None \<or> environ plain_world ''EVENT_URL'' = Some []"
    by (simp add: plain_world_def)
  have b: "environ (plain_world\<lparr>environ := [''EVENT_URL'' \<mapsto> []]\<rparr>) ''EVENT_URL'' = None
        \<or> environ (plain_world\<lparr>environ := [''EVENT_URL'' \<mapsto> []]\<rparr>) ''EVENT_URL'' = Some []"
    by simp
  from main_event_url_unset [OF a] main_event_url_unset [OF b] a b
  show ?thesis by blast
qed

section \<open>The notifier, the state store and the shape of \<open>main\<close>\<close>

lemma smtp_session:
  "\<exists>evs. catch
            (and_then (smtp c1) (\<lambda>_. and_then (smtp c2) (\<lambda>_. and_then (smtp c3) (\<lambda>_.
             and_then (smtp c4) (\<lambda>_. and_then (smtp c5) (\<lambda>_. log Email_sent))))))
            (\<lambda>e. log (Email_failed e)) w = (Inr (), w, evs) \<and> quiet evs"
  by (simp add: io_defs smtp_def exception_def quiet_def split: option.splits)

lemma and_then_int_of:
  "and_then (int_of s) f w = (case py_int w s of Inl e \<Rightarrow> (Inl e, w, []) | Inr n \<Rightarrow> f n w)"
  by (simp add: and_then_def int_of_def split: sum.splits prod.splits)

lemma send_email_bad_port:
  assumes "py_int w (port_setting w) = Inl e"
  shows "send_email s m w = (Inl e, w, [Enter_send_email s m])"
  using assms by (simp add: send_email_def io_laws and_then_int_of port_setting_def)

lemma send_email_incomplete:
  assumes "py_int w (port_setting w) = Inr n"
    and "\<not> list_all truthy_str [environ w ''SMTP_SERVER'', environ w ''SMTP_USERNAME'',
                                 environ w ''SMTP_PASSWORD'', environ w ''EMAIL_TO'']"
  shows "send_email s m w = (Inr (), w, [Enter_send_email s m, Log Email_incomplete])"
  using assms
  by (simp add: send_email_def io_laws and_then_int_of Let_def log_def emit_def port_setting_def)

lemma send_email_ok:
  assumes "py_int w (port_setting w) = Inr n"
  shows "\<exists>evs. send_email s m w = (Inr (), w, Enter_send_email s m # evs) \<and> quiet evs"
proof (cases "list_all truthy_str [environ w ''SMTP_SERVER'', environ w ''SMTP_USERNAME'',
                                   environ w ''SMTP_PASSWORD'', environ w ''EMAIL_TO'']")
  case False
  then show ?thesis
    using send_email_incomplete [OF assms, of s m] by (simp add: quiet_def)
next
  case True
  let ?from = "case environ w ''EMAIL_FROM'' of None \<Rightarrow> environ w ''SMTP_USERNAME'' | Some a \<Rightarrow> Some a"
  obtain evs where
    "catch
       (and_then (smtp (Smtp_connect (the (environ w ''SMTP_SERVER'')) n)) (\<lambda>_.
        and_then (smtp Smtp_starttls) (\<lambda>_.
        and_then (smtp (Smtp_login (the (environ w ''SMTP_USERNAME'')) (the (environ w ''SMTP_PASSWORD'')))) (\<lambda>_.
        and_then (smtp (Smtp_sendmail (the ?from) (split_on CHR '','' (the (environ w ''EMAIL_TO'')))
           \<lparr>msg_from = the ?from, msg_to = the (environ w ''EMAIL_TO''), msg_subject = s, msg_body = m\<rparr>)) (\<lambda>_.
        and_then (smtp Smtp_quit) (\<lambda>_. log Email_sent))))))
       (\<lambda>e. log (Email_failed e)) w = (Inr (), w, evs)" and "quiet evs"
    using smtp_session by blast
  then show ?thesis
    using assms True by (simp add: send_email_def io_laws and_then_int_of Let_def port_setting_def)
qed

lemma send_sms_shape:
  "\<exists>evs. send_sms m w = (Inr (), w, Enter_send_sms m # evs) \<and> quiet evs"
  by (cases "http_post w ''https://textbelt.com/text''
        [(''phone'', the (environ w ''SMS_PHONE'')), (''message'', m),
         (''key'', case environ w ''TEXTBELT_KEY'' of None \<Rightarrow> ''textbelt'' | Some v \<Rightarrow> v)]")
     (auto simp add: send_sms_def io_defs requests_post_def resp_json_def exception_def quiet_def
       no_get_def
       split: sum.splits json.splits elim!: py_get.elims)

lemma json_loads_raises: "json_loads w t = Inl e \<Longrightarrow> \<exists>c m. e = Exception c m"
  by (auto simp add: json_loads_def exception_def split: option.splits sum.splits)

lemma json_ascii_state_of: "json_ascii (json_dumps (state_of b)) = Some (state_of b)"
proof (cases b)
  case True
  have "json_ascii (json_dumps (state_of True)) = Some (state_of True)" by code_simp
  with True show ?thesis by simp
next
  case False
  have "json_ascii (json_dumps (state_of False)) = Some (state_of False)" by code_simp
  with False show ?thesis by simp
qed

lemma json_loads_state_of: "json_loads w (json_dumps (state_of b)) = Inr (state_of b)"
  by (simp add: json_loads_def json_ascii_state_of)

lemma load_state_missing:
  "files w p = None \<Longrightarrow> load_state p w = (Inr JNull, w, [File_exists p])"
  by (simp add: load_state_def path_exists_def io_defs)

lemma load_state_unreadable:
  "files w p = Some t \<Longrightarrow> read_error w p = Some e \<Longrightarrow>
   load_state p w =
     (Inr JNull, w, [File_exists p, File_read p, Log (State_read_failed (exception e))])"
  by (simp add: load_state_def path_exists_def read_text_def io_defs exception_def)

lemma load_state_parsed:
  "files w p = Some t \<Longrightarrow> readable w p \<Longrightarrow> json_loads w t = Inr v \<Longrightarrow>
   load_state p w = (Inr v, w, [File_exists p, File_read p])"
  by (simp add: load_state_def path_exists_def read_text_def io_defs readable_def)

lemma load_state_undecodable:
  "files w p = Some t \<Longrightarrow> readable w p \<Longrightarrow> json_loads w t = Inl e \<Longrightarrow>
   load_state p w = (Inr JNull, w, [File_exists p, File_read p, Log (State_read_failed e)])"
  by (frule json_loads_raises)
     (auto simp add: load_state_def path_exists_def read_text_def io_defs readable_def)

lemma load_state_shape:
  "\<exists>v evs. load_state p w = (Inr v, w, evs) \<and> quiet evs"
proof (cases "files w p")
  case None
  then show ?thesis by (simp add: load_state_missing quiet_def)
next
  case (Some t)
  show ?thesis
  proof (cases "read_error w p")
    case (Some e)
    with \<open>files w p = Some t\<close> show ?thesis by (simp add: load_state_unreadable quiet_def)
  next
    case None
    then have "readable w p" by (simp add: readable_def)
    with Some show ?thesis
      by (cases "json_loads w t") (simp_all add: load_state_undecodable load_state_parsed quiet_def)
  qed
qed

lemma save_state_eq:
  "save_state p st w =
     (Inr (),
      w\<lparr>files := (files w)(p := snd (write_file w p (json_dumps st)))\<rparr>,
      File_write p (json_dumps st) #
        (case fst (write_file w p (json_dumps st)) of
           None \<Rightarrow> []
         | Some e \<Rightarrow> [Log (State_write_failed (exception e))]))"
  by (simp add: save_state_def write_text_def io_defs exception_def
      split: option.splits prod.splits)

lemma main_eq:
  assumes "environ w ''EVENT_URL'' = Some url" "url \<noteq> []"
    and "load_state (state_path w) w = (Inr loaded, w, levs)"
  shows "main w =
     (case py_get (if truthy loaded then loaded else JObj []) ''has_tickets'' of
        Inl e \<Rightarrow> (Inl e, w, levs)
      | Inr last_status \<Rightarrow>
          (case after_load url (state_path w) last_status w of
             (r, w', evs) \<Rightarrow> (r, w', levs @ evs)))"
  using assms
  by (simp add: main_def after_load_def io_laws state_path_def truthy_str_def Let_def
      and_then_def [of "load_state _"] and_then_def [of "result _"] result_def
      split: sum.splits cong: if_cong)

section \<open>What does not depend on the files\<close>

lemma agree_fields:
  assumes "agree w w'"
  shows "environ w' = environ w" "read_error w' = read_error w" "write_file w' = write_file w"
    "http_get w' = http_get w" "http_post w' = http_post w" "smtp_raises w' = smtp_raises w"
    "lower_other w' = lower_other w" "int_other w' = int_other w" "json_other w' = json_other w"
proof -
  from assms have e: "w' = w\<lparr>files := files w'\<rparr>" by (simp add: agree_def)
  show "environ w' = environ w" by (subst e) simp
  show "read_error w' = read_error w" by (subst e) simp
  show "write_file w' = write_file w" by (subst e) simp
  show "http_get w' = http_get w" by (subst e) simp
  show "http_post w' = http_post w" by (subst e) simp
  show "smtp_raises w' = smtp_raises w" by (subst e) simp
  show "lower_other w' = lower_other w" by (subst e) simp
  show "int_other w' = int_other w" by (subst e) simp
  show "json_other w' = json_other w" by (subst e) simp
qed

lemma agree_refl: "agree w w"
  by (simp add: agree_def)

lemma agree_update: "agree w (w\<lparr>files := f\<rparr>)"
  by (simp add: agree_def)

lemma agree_write: "agree w w' \<Longrightarrow> agree (w\<lparr>files := f\<rparr>) (w'\<lparr>files := g\<rparr>)"
  by (metis (no_types) agree_def world.surjective world.update_convs(2))

lemma files_blind_basic:
  "files_blind (return x)" "files_blind (raise e)" "files_blind (result r)"
  "files_blind (emit ev)" "files_blind (log l)"
  by (simp_all add: files_blind_def io_defs obs_defs)

lemma files_blind_getenv: "files_blind (getenv k)" "files_blind (getenv_default k d)"
  by (simp_all add: files_blind_def io_defs obs_defs agree_fields)

lemma files_blindD:
  assumes "files_blind m" "agree w w'" "m w = (r, v, evs)" "m w' = (r', v', evs')"
  shows "r' = r \<and> evs' = evs \<and> agree v v'"
proof -
  from assms(1,2)
  have "outcome (m w) = outcome (m w') \<and> events (m w) = events (m w')
      \<and> agree (world_after (m w)) (world_after (m w'))"
    unfolding files_blind_def by blast
  with assms(3,4) show ?thesis by (simp add: obs_defs)
qed

lemma files_blind_and_then:
  assumes "files_blind m" "\<And>x. files_blind (f x)"
  shows "files_blind (and_then m f)"
  unfolding files_blind_def
proof (intro allI impI)
  fix w w' assume a: "agree w w'"
  obtain r v evs where mw: "m w = (r, v, evs)" by (cases "m w")
  obtain r' v' evs' where mw': "m w' = (r', v', evs')" by (cases "m w'")
  from files_blindD [OF assms(1) a mw mw'] have eq: "r' = r" "evs' = evs" "agree v v'"
    by simp_all
  show "outcome (and_then m f w) = outcome (and_then m f w') \<and>
        events (and_then m f w) = events (and_then m f w') \<and>
        agree (world_after (and_then m f w)) (world_after (and_then m f w'))"
  proof (cases r)
    case (Inl e)
    with mw mw' eq show ?thesis by (simp add: and_then_def obs_defs)
  next
    case (Inr x)
    from assms(2) [of x] eq(3)
    have "outcome (f x v) = outcome (f x v') \<and> events (f x v) = events (f x v')
        \<and> agree (world_after (f x v)) (world_after (f x v'))"
      by (simp add: files_blind_def)
    with Inr mw mw' eq show ?thesis
      by (auto simp add: and_then_def obs_defs split: prod.splits)
  qed
qed

lemma files_blind_catch:
  assumes "files_blind m" "\<And>e. files_blind (h e)"
  shows "files_blind (catch m h)"
  unfolding files_blind_def
proof (intro allI impI)
  fix w w' assume a: "agree w w'"
  obtain r v evs where mw: "m w = (r, v, evs)" by (cases "m w")
  obtain r' v' evs' where mw': "m w' = (r', v', evs')" by (cases "m w'")
  from files_blindD [OF assms(1) a mw mw'] have eq: "r' = r" "evs' = evs" "agree v v'"
    by simp_all
  show "outcome (catch m h w) = outcome (catch m h w') \<and>
        events (catch m h w) = events (catch m h w') \<and>
        agree (world_after (catch m h w)) (world_after (catch m h w'))"
  proof (cases r)
    case (Inr x)
    with mw mw' eq show ?thesis by (simp add: catch_def obs_defs)
  next
    case (Inl e)
    show ?thesis
    proof (cases e)
      case (SystemExit n)
      with Inl mw mw' eq show ?thesis by (simp add: catch_def obs_defs)
    next
      case (Exception c msg)
      from assms(2) [of "Exception c msg"] eq(3)
      have "outcome (h (Exception c msg) v) = outcome (h (Exception c msg) v')
          \<and> events (h (Exception c msg) v) = events (h (Exception c msg) v')
          \<and> agree (world_after (h (Exception c msg) v)) (world_after (h (Exception c msg) v'))"
        by (simp add: files_blind_def)
      with Inl Exception mw mw' eq show ?thesis
        by (auto simp add: catch_def obs_defs split: prod.splits)
    qed
  qed
qed

lemma files_blind_if:
  "files_blind m \<Longrightarrow> files_blind m' \<Longrightarrow> files_blind (if b then m else m')"
  by simp

lemma files_blind_network:
  "files_blind (smtp c)" "files_blind (requests_post url data)" "files_blind (requests_get url)"
  by (auto simp add: files_blind_def smtp_def requests_post_def requests_get_def obs_defs
      agree_fields split: option.splits post_result.splits get_result.splits)

lemma files_blind_library:
  "files_blind (int_of s)" "files_blind (lower_of s)" "files_blind (loads s)"
  by (auto simp add: files_blind_def int_of_def lower_of_def loads_def obs_defs py_int_def
      str_lower_def json_loads_def agree_fields split: option.splits)

lemma files_blind_write_text: "files_blind (write_text p t)"
  by (auto simp add: files_blind_def write_text_def obs_defs agree_fields agree_write
      split: option.splits prod.splits)

lemmas files_blind_intros = files_blind_and_then files_blind_catch files_blind_if
  files_blind_basic files_blind_getenv files_blind_network files_blind_library
  files_blind_write_text

lemma files_blind_send_email: "files_blind (send_email s m)"
  unfolding send_email_def Let_def by (intro files_blind_intros)

lemma files_blind_send_sms: "files_blind (send_sms m)"
  unfolding send_sms_def resp_json_def by (intro files_blind_intros)

lemma files_blind_check_tickets: "files_blind (check_tickets u)"
  unfolding check_tickets_def Let_def by (intro files_blind_intros)

lemma files_blind_save_state: "files_blind (save_state p st)"
  unfolding save_state_def by (intro files_blind_intros)

lemma files_blind_after_load: "files_blind (after_load u p l)"
  unfolding after_load_def
  by (intro files_blind_intros files_blind_send_email files_blind_send_sms
      files_blind_check_tickets files_blind_save_state)

lemma after_load_truthy:
  "truthy l = truthy l' \<Longrightarrow> after_load u p l = after_load u p l'"
  by (simp add: after_load_def)

section \<open>What \<open>main\<close> does after loading the state\<close>

lemma check_tickets_shape:
  "check_tickets u w = (Inr (page_available w u), w, events (check_tickets u w))"
  by (simp add: check_tickets_eq page_available_def obs_defs split: get_result.splits)

lemma check_tickets_quiet: "quiet (events (check_tickets u w))"
  by (simp add: check_tickets_eq obs_defs quiet_def split: get_result.splits)

lemma save_state_quiet:
  "email_calls (events (save_state p st w)) = []" "sms_calls (events (save_state p st w)) = []"
  "file_writes (events (save_state p st w)) = [(p, json_dumps st)]"
  by (simp_all add: save_state_eq obs_defs split: option.splits)

lemma after_load_no_edge:
  assumes "\<not> (page_available w u \<and> \<not> truthy l)"
  shows "after_load u p l w =
           (Inr (), world_after (save_state p (state_of (page_available w u)) w),
            events (check_tickets u w) @ Log (Tickets_available (page_available w u))
              # events (save_state p (state_of (page_available w u)) w))"
proof -
  define cevs where "cevs = events (check_tickets u w)"
  have c: "check_tickets u w = (Inr (page_available w u), w, cevs)"
    unfolding cevs_def by (rule check_tickets_shape)
  have "after_load u p l w =
           (Inr (), world_after (save_state p (state_of (page_available w u)) w),
            cevs @ Log (Tickets_available (page_available w u))
              # events (save_state p (state_of (page_available w u)) w))"
    using assms
    by (auto simp add: after_load_def and_then_def c save_state_eq state_of_def obs_defs
        log_def emit_def return_def)
  then show ?thesis by (simp add: cevs_def)
qed

lemma after_load_edge_bad:
  assumes "page_available w u" "\<not> truthy l" "py_int w (port_setting w) = Inl e"
  shows "after_load u p l w =
           (Inl e, w,
            events (check_tickets u w)
              @ [Log (Tickets_available True), Enter_send_email subject (body u)])"
proof -
  define cevs where "cevs = events (check_tickets u w)"
  have c: "check_tickets u w = (Inr True, w, cevs)"
    unfolding cevs_def using check_tickets_shape [of u w] assms(1) by simp
  have "after_load u p l w =
           (Inl e, w, cevs @ [Log (Tickets_available True), Enter_send_email subject (body u)])"
    using assms(2)
    by (simp add: after_load_def and_then_def c send_email_bad_port [OF assms(3)]
        log_def emit_def)
  then show ?thesis by (simp add: cevs_def)
qed

lemma after_load_edge_ok:
  assumes "page_available w u" "\<not> truthy l" "py_int w (port_setting w) = Inr n"
  shows "\<exists>evs1 evs2. quiet evs1 \<and> quiet evs2 \<and>
           after_load u p l w =
             (Inr (), world_after (save_state p (state_of True) w),
              events (check_tickets u w)
                @ Log (Tickets_available True) # Enter_send_email subject (body u) # evs1
                @ Enter_send_sms (body u) # evs2
                @ events (save_state p (state_of True) w))"
proof -
  define cevs where "cevs = events (check_tickets u w)"
  have c: "check_tickets u w = (Inr True, w, cevs)"
    unfolding cevs_def using check_tickets_shape [of u w] assms(1) by simp
  obtain evs1 where e: "send_email subject (body u) w = (Inr (), w, Enter_send_email subject (body u) # evs1)"
    and q1: "quiet evs1"
    using send_email_ok [OF assms(3)] by blast
  obtain evs2 where s: "send_sms (body u) w = (Inr (), w, Enter_send_sms (body u) # evs2)"
    and q2: "quiet evs2"
    using send_sms_shape by blast
  have "after_load u p l w =
             (Inr (), world_after (save_state p (state_of True) w),
              cevs @ Log (Tickets_available True) # Enter_send_email subject (body u) # evs1
                @ Enter_send_sms (body u) # evs2
                @ events (save_state p (state_of True) w))"
    using assms(2)
    by (simp add: after_load_def and_then_def c e s save_state_eq state_of_def obs_defs
        log_def emit_def)
  with q1 q2 show ?thesis unfolding cevs_def by blast
qed

text \<open>The calls and writes of \<open>after_load\<close>, in all three cases at once.\<close>

lemma after_load_calls:
  "email_calls (events (after_load u p l w)) =
     (if page_available w u \<and> \<not> truthy l then [(subject, body u)] else [])"
  "sms_calls (events (after_load u p l w)) =
     (if page_available w u \<and> \<not> truthy l \<and> \<not> isl (py_int w (port_setting w)) then [body u] else [])"
  "file_writes (events (after_load u p l w)) =
     (if page_available w u \<and> \<not> truthy l \<and> isl (py_int w (port_setting w)) then []
      else [(p, json_dumps (state_of (page_available w u)))])"
proof -
  have q: "email_calls (events (check_tickets u w)) = []" "sms_calls (events (check_tickets u w)) = []"
    "file_writes (events (check_tickets u w)) = []"
    using check_tickets_quiet [of u w] by (simp_all add: quiet_def)
  consider (quiet) "\<not> (page_available w u \<and> \<not> truthy l)"
    | (bad) e where "page_available w u" "\<not> truthy l" "py_int w (port_setting w) = Inl e"
    | (ok) n where "page_available w u" "\<not> truthy l" "py_int w (port_setting w) = Inr n"
    by (cases "py_int w (port_setting w)") auto
  then have "email_calls (events (after_load u p l w)) =
     (if page_available w u \<and> \<not> truthy l then [(subject, body u)] else [])
   \<and> sms_calls (events (after_load u p l w)) =
     (if page_available w u \<and> \<not> truthy l \<and> \<not> isl (py_int w (port_setting w)) then [body u] else [])
   \<and> file_writes (events (after_load u p l w)) =
     (if page_available w u \<and> \<not> truthy l \<and> isl (py_int w (port_setting w)) then []
      else [(p, json_dumps (state_of (page_available w u)))])"
  proof cases
    case quiet
    show ?thesis
      using quiet q
      by (simp add: after_load_no_edge [OF quiet] events_def email_calls_append sms_calls_append
          file_writes_append save_state_quiet [unfolded events_def])
  next
    case bad
    show ?thesis
      using bad q
      by (simp add: after_load_edge_bad [OF bad] events_def email_calls_append sms_calls_append
          file_writes_append)
  next
    case ok
    from after_load_edge_ok [OF ok, of p] obtain evs1 evs2 where
      "quiet evs1" "quiet evs2" and
      a: "after_load u p l w =
             (Inr (), world_after (save_state p (state_of True) w),
              events (check_tickets u w)
                @ Log (Tickets_available True) # Enter_send_email subject (body u) # evs1
                @ Enter_send_sms (body u) # evs2
                @ events (save_state p (state_of True) w))"
      by blast
    then show ?thesis
      using ok q
      by (simp add: a events_def email_calls_append sms_calls_append
          file_writes_append save_state_quiet [unfolded events_def] quiet_def)
  qed
  then show "email_calls (events (after_load u p l w)) =
     (if page_available w u \<and> \<not> truthy l then [(subject, body u)] else [])"
  "sms_calls (events (after_load u p l w)) =
     (if page_available w u \<and> \<not> truthy l \<and> \<not> isl (py_int w (port_setting w)) then [body u] else [])"
  "file_writes (events (after_load u p l w)) =
     (if page_available w u \<and> \<not> truthy l \<and> isl (py_int w (port_setting w)) then []
      else [(p, json_dumps (state_of (page_available w u)))])"
    by simp_all
qed

section \<open>\<open>main\<close> after the state is loaded\<close>

lemma main_after_load:
  assumes "environ w ''EVENT_URL'' = Some url" "url \<noteq> []"
    and "load_state (state_path w) w = (Inr loaded, w, levs)"
    and "py_get (if truthy loaded then loaded else JObj []) ''has_tickets'' = Inr last_status"
  shows "outcome (main w) = outcome (after_load url (state_path w) last_status w)"
    and "world_after (main w) = world_after (after_load url (state_path w) last_status w)"
    and "events (main w) = levs @ events (after_load url (state_path w) last_status w)"
  using main_eq [OF assms(1-3)] assms(4) by (simp_all add: obs_defs split: prod.splits)

text \<open>
  Two runs in worlds that differ in their files only, and in which the loaded states
  give \<open>last_status\<close> the same truth value, end the same way and, once the state is
  loaded, cause the same events.
\<close>

lemma main_agree:
  assumes "environ w ''EVENT_URL'' = Some url" "url \<noteq> []" "agree w w'"
    and "load_state (state_path w) w = (Inr a, w, levs)"
    and "load_state (state_path w) w' = (Inr a', w', levs')"
    and "py_get (if truthy a then a else JObj []) ''has_tickets'' = Inr l"
    and "py_get (if truthy a' then a' else JObj []) ''has_tickets'' = Inr l'"
    and "truthy l = truthy l'"
  shows "outcome (main w) = outcome (main w')
       \<and> (\<exists>rest. events (main w) = levs @ rest \<and> events (main w') = levs' @ rest)"
proof -
  have e: "environ w' ''EVENT_URL'' = Some url" and p: "state_path w' = state_path w"
    using assms(1,3) by (simp_all add: agree_fields state_path_def)
  note m = main_after_load [OF assms(1,2,4,6)]
  note m' = main_after_load [OF e assms(2) assms(5) [folded p] assms(7), unfolded p]
  have al: "after_load url (state_path w) l' = after_load url (state_path w) l"
    by (rule after_load_truthy) (simp add: assms(8))
  from files_blind_after_load [of url "state_path w" l] assms(3)
  have "outcome (after_load url (state_path w) l w) = outcome (after_load url (state_path w) l w')
      \<and> events (after_load url (state_path w) l w) = events (after_load url (state_path w) l w')"
    unfolding files_blind_def by blast
  then show ?thesis
    unfolding m(1,3) m'(1,3) al by simp
qed

lemma page_available_plain:
  "http_get w = http_get plain_world \<Longrightarrow> page_available w u"
  by (simp add: page_available_def check_tickets_eq outcome_def plain_world_def no_phrases_def
      str_lower_def ascii_def lower_def lower_char_def sublist_code)

lemma py_int_587: "environ w ''SMTP_PORT'' = None \<Longrightarrow> py_int w (port_setting w) = Inr 587"
proof -
  have "int_ascii ''587'' = Inr 587" by code_simp
  then show "environ w ''SMTP_PORT'' = None \<Longrightarrow> py_int w (port_setting w) = Inr 587"
    by (simp add: py_int_def port_setting_def ascii_def)
qed

lemma py_int_abc:
  "environ w ''SMTP_PORT'' = Some ''abc'' \<Longrightarrow>
   py_int w (port_setting w) =
     Inl (Exception ''ValueError''
            (''invalid literal for int() with base 10: '' @ [CHR 0x27] @ ''abc'' @ [CHR 0x27]))"
proof -
  have "int_ascii ''abc'' =
     Inl (Exception ''ValueError''
            (''invalid literal for int() with base 10: '' @ [CHR 0x27] @ ''abc'' @ [CHR 0x27]))"
    by code_simp
  then show "environ w ''SMTP_PORT'' = Some ''abc'' \<Longrightarrow>
   py_int w (port_setting w) =
     Inl (Exception ''ValueError''
            (''invalid literal for int() with base 10: '' @ [CHR 0x27] @ ''abc'' @ [CHR 0x27]))"
    by (simp add: py_int_def port_setting_def ascii_def)
qed

lemma monitored_world_facts:
  "environ monitored_world ''EVENT_URL'' = Some example_url" "example_url \<noteq> []"
  "state_path monitored_world = ''state.json''" "environ monitored_world ''SMTP_PORT'' = None"
  "files monitored_world ''state.json'' = None" "readable monitored_world ''state.json''"
  "http_get monitored_world = http_get plain_world"
  by (simp_all add: monitored_world_def plain_world_def example_url_def state_path_def
      readable_def)

lemma bad_port_world_facts:
  "environ bad_port_world ''EVENT_URL'' = Some example_url"
  "state_path bad_port_world = ''state.json''" "environ bad_port_world ''SMTP_PORT'' = Some ''abc''"
  "files bad_port_world ''state.json'' = None" "http_get bad_port_world = http_get plain_world"
  by (simp_all add: bad_port_world_def plain_world_def state_path_def)

text \<open>The run in \<open>bad_port_world\<close>: the exception of \<open>int\<close> leaves \<open>send_email\<close> and \<open>main\<close>.\<close>

lemma main_bad_port:
  "main bad_port_world =
     (Inl (Exception ''ValueError''
             (''invalid literal for int() with base 10: '' @ [CHR 0x27] @ ''abc'' @ [CHR 0x27])),
      bad_port_world,
      [File_exists ''state.json'', Http_get example_url, Log (Tickets_available True),
       Enter_send_email subject (body example_url)])"
proof -
  let ?w = bad_port_world
  have l: "load_state (state_path ?w) ?w = (Inr JNull, ?w, [File_exists ''state.json''])"
    by (simp add: bad_port_world_facts load_state_missing)
  have p: "page_available ?w example_url"
    by (rule page_available_plain) (rule bad_port_world_facts)
  have c: "events (check_tickets example_url ?w) = [Http_get example_url]"
    by (simp add: check_tickets_eq events_def bad_port_world_facts plain_world_def)
  have a: "after_load example_url (state_path ?w) JNull ?w =
      (Inl (Exception ''ValueError''
             (''invalid literal for int() with base 10: '' @ [CHR 0x27] @ ''abc'' @ [CHR 0x27])),
       ?w, [Http_get example_url, Log (Tickets_available True),
            Enter_send_email subject (body example_url)])"
    using after_load_edge_bad [OF p _ py_int_abc [OF bad_port_world_facts(3)], of JNull "state_path ?w"]
    by (simp add: c)
  from main_eq [OF bad_port_world_facts(1) monitored_world_facts(2) l]
  show ?thesis by (simp add: dict_get_def a)
qed

section \<open>A port that is not a number\<close>

text \<open>
  C1. The edge-trigger law says that on an edge, a run with no previous state or a
  false one and an available page, the notification fires: the email and the SMS are
  sent. The run in \<open>bad_port_world\<close> is such an edge: there is no state file, the page is
  available, a phone number is set, and \<open>SMTP_PORT\<close> is \<open>abc\<close>. There \<open>main\<close> calls
  \<open>send_email\<close>, which raises at \<open>int\<close> before it sends anything, and \<open>send_sms\<close> is
  never called: the events of the run end with the entry into \<open>send_email\<close>.
\<close>

theorem edge_trigger_bad_port:
  "files bad_port_world (state_path bad_port_world) = None
   \<and> page_available bad_port_world example_url
   \<and> environ bad_port_world ''SMS_PHONE'' = Some ''447912345678''
   \<and> email_calls (events (main bad_port_world)) = [(subject, body example_url)]
   \<and> sms_calls (events (main bad_port_world)) = []
   \<and> events (main bad_port_world) =
       [File_exists ''state.json'', Http_get example_url, Log (Tickets_available True),
        Enter_send_email subject (body example_url)]"
proof -
  have "page_available bad_port_world example_url"
    by (rule page_available_plain) (rule bad_port_world_facts)
  moreover have "environ bad_port_world ''SMS_PHONE'' = Some ''447912345678''"
    by (simp add: bad_port_world_def)
  ultimately show ?thesis
    by (simp add: main_bad_port events_def bad_port_world_facts)
qed

text \<open>
  C5. An exception raised inside the email channel is to be caught and logged, with the
  SMS still attempted, the state saved and the exit status 0. In \<open>bad_port_world\<close> the
  \<open>ValueError\<close> that \<open>int\<close> raises on \<open>abc\<close> is raised inside \<open>send_email\<close>, outside its
  \<open>try\<close> block: \<open>send_email\<close> does not catch it and logs nothing, and \<open>main\<close> ends with
  that exception and exit status 1.
\<close>

theorem send_email_port_uncaught:
  "send_email subject (body example_url) bad_port_world =
     (Inl (Exception ''ValueError''
             (''invalid literal for int() with base 10: '' @ [CHR 0x27] @ ''abc'' @ [CHR 0x27])),
      bad_port_world, [Enter_send_email subject (body example_url)])
   \<and> outcome (main bad_port_world) =
       Inl (Exception ''ValueError''
              (''invalid literal for int() with base 10: '' @ [CHR 0x27] @ ''abc'' @ [CHR 0x27]))
   \<and> exit_status (outcome (main bad_port_world)) = 1"
  using send_email_bad_port [OF py_int_abc [OF bad_port_world_facts(3)],
          of subject "body example_url"]
  by (simp add: main_bad_port outcome_def exit_status_def)

text \<open>
  C6. On every run with \<open>EVENT_URL\<close> set the state file is to be written once, at the end
  of the run. In \<open>bad_port_world\<close>, where \<open>EVENT_URL\<close> is set, \<open>main\<close> never reaches
  \<open>save_state\<close>: the run writes no file and leaves the world as it found it, without a
  state file.
\<close>

theorem state_not_saved_bad_port:
  "environ bad_port_world ''EVENT_URL'' = Some example_url
   \<and> file_writes (events (main bad_port_world)) = []
   \<and> world_after (main bad_port_world) = bad_port_world
   \<and> files (world_after (main bad_port_world)) ''state.json'' = None"
  by (simp add: main_bad_port events_def world_after_def bad_port_world_facts)

section \<open>A state file that holds no object\<close>

lemma json_ascii_array: "json_ascii ''[1]'' = Some (JArr [JInt 1])"
  by code_simp

lemma array_state_world_facts:
  "environ array_state_world ''EVENT_URL'' = Some example_url"
  "state_path array_state_world = ''state.json''"
  "files array_state_world ''state.json'' = Some ''[1]''"
  "readable array_state_world ''state.json''"
  by (simp_all add: array_state_world_def monitored_world_def plain_world_def state_path_def
      readable_def)

text \<open>
  C9. Whatever the state file holds, the run is not to raise because of it. In
  \<open>array_state_world\<close> the file holds the JSON array \<open>[1]\<close>: \<open>load_state\<close> returns the
  list, which is truthy, so that \<open>state\<close> is the list, and \<open>state.get\<close> raises
  \<open>AttributeError\<close>. Nothing catches it: the run ends after reading the file, with exit
  status 1, before the page is fetched.
\<close>

theorem main_array_state:
  "files array_state_world ''state.json'' = Some ''[1]''
   \<and> main array_state_world =
       (Inl (Exception ''AttributeError''
               ([CHR 0x27] @ ''list'' @ [CHR 0x27] @ '' object has no attribute ''
                  @ [CHR 0x27] @ ''get'' @ [CHR 0x27])),
        array_state_world, [File_exists ''state.json'', File_read ''state.json''])
   \<and> exit_status (outcome (main array_state_world)) = 1"
proof -
  let ?w = array_state_world
  have "json_loads ?w ''[1]'' = Inr (JArr [JInt 1])"
    by (simp add: json_loads_def json_ascii_array)
  then have l: "load_state (state_path ?w) ?w =
      (Inr (JArr [JInt 1]), ?w, [File_exists ''state.json'', File_read ''state.json''])"
    using load_state_parsed [OF array_state_world_facts(3,4)]
    by (simp add: array_state_world_facts)
  from main_eq [OF array_state_world_facts(1) monitored_world_facts(2) l]
  show ?thesis
    by (simp add: no_get_def array_state_world_facts outcome_def exit_status_def)
qed

section \<open>The state store\<close>

lemma save_state_world:
  "stores w p (json_dumps st) \<Longrightarrow>
   world_after (save_state p st w) = w\<lparr>files := (files w)(p \<mapsto> json_dumps st)\<rparr>"
  by (simp add: save_state_eq world_after_def stores_def)

lemma readable_files: "readable (w\<lparr>files := f\<rparr>) p = readable w p"
  by (simp add: readable_def)

text \<open>
  C7. The state round trip. For each boolean \<open>b\<close>, \<open>save_state\<close> of
  \<open>{"has_tickets": b}\<close> at a path where the text can be stored and read, followed by
  \<open>load_state\<close> of that path, yields \<open>{"has_tickets": b}\<close>. \<open>load_state\<close> of a path with no file
  yields \<open>None\<close>. The caller treats \<open>None\<close> as it treats \<open>{"has_tickets": false}\<close>: a run
  of \<open>main\<close> with no state file and a run with the file that \<open>save_state\<close> writes for
  \<open>False\<close> end the same way and cause the same events, but for the read of the file.
\<close>

theorem state_round_trip:
  "(stores w path (json_dumps (state_of b)) \<and> readable w path \<longrightarrow>
      outcome (load_state path (world_after (save_state path (state_of b) w))) = Inr (state_of b))
   \<and> (files w path = None \<longrightarrow> outcome (load_state path w) = Inr JNull)
   \<and> (environ w ''EVENT_URL'' = Some url \<and> url \<noteq> [] \<and> files w (state_path w) = None
        \<and> readable w (state_path w) \<longrightarrow>
        outcome (main w) =
          outcome (main (w\<lparr>files := (files w)(state_path w \<mapsto> json_dumps (state_of False))\<rparr>))
        \<and> (\<exists>rest. events (main w) = File_exists (state_path w) # rest
              \<and> events (main (w\<lparr>files := (files w)(state_path w \<mapsto> json_dumps (state_of False))\<rparr>))
                  = File_exists (state_path w) # File_read (state_path w) # rest))"
proof (intro conjI impI)
  assume a: "stores w path (json_dumps (state_of b)) \<and> readable w path"
  let ?w = "w\<lparr>files := (files w)(path \<mapsto> json_dumps (state_of b))\<rparr>"
  have "load_state path ?w = (Inr (state_of b), ?w, [File_exists path, File_read path])"
    using a
    by (intro load_state_parsed [where t = "json_dumps (state_of b)"])
       (simp_all add: readable_files json_loads_state_of)
  with a show "outcome (load_state path (world_after (save_state path (state_of b) w))) = Inr (state_of b)"
    by (simp add: save_state_world outcome_def)
next
  assume "files w path = None"
  then show "outcome (load_state path w) = Inr JNull"
    by (simp add: load_state_missing outcome_def)
next
  assume a: "environ w ''EVENT_URL'' = Some url \<and> url \<noteq> [] \<and> files w (state_path w) = None
        \<and> readable w (state_path w)"
  let ?p = "state_path w"
  let ?w = "w\<lparr>files := (files w)(?p \<mapsto> json_dumps (state_of False))\<rparr>"
  have l: "load_state ?p w = (Inr JNull, w, [File_exists ?p])"
    using a by (simp add: load_state_missing)
  have l': "load_state ?p ?w = (Inr (state_of False), ?w, [File_exists ?p, File_read ?p])"
    using a
    by (intro load_state_parsed [where t = "json_dumps (state_of False)"])
       (simp_all add: readable_files json_loads_state_of)
  have r: "outcome (main w) = outcome (main ?w)
       \<and> (\<exists>rest. events (main w) = [File_exists ?p] @ rest
              \<and> events (main ?w) = [File_exists ?p, File_read ?p] @ rest)"
    using a
    by (intro main_agree [OF _ _ agree_update l l', of url JNull "JBool False"])
       (simp_all add: dict_get_def state_of_def)
  from r show "outcome (main w) = outcome (main ?w)" by simp
  from r show "\<exists>rest. events (main w) = File_exists ?p # rest
              \<and> events (main ?w) = File_exists ?p # File_read ?p # rest" by simp
qed

theorem state_round_trip_witness:
  "stores plain_world ''state.json'' (json_dumps (state_of True))
   \<and> readable plain_world ''state.json''
   \<and> outcome (load_state ''state.json''
        (world_after (save_state ''state.json'' (state_of True) plain_world))) = Inr (state_of True)
   \<and> files plain_world ''state.json'' = None
   \<and> outcome (load_state ''state.json'' plain_world) = Inr JNull
   \<and> environ monitored_world ''EVENT_URL'' = Some example_url \<and> example_url \<noteq> []
   \<and> files monitored_world (state_path monitored_world) = None
   \<and> readable monitored_world (state_path monitored_world)
   \<and> outcome (main monitored_world) =
       outcome (main (monitored_world\<lparr>files :=
         (files monitored_world)(state_path monitored_world \<mapsto> json_dumps (state_of False))\<rparr>))"
proof -
  have a: "stores plain_world ''state.json'' (json_dumps (state_of True))"
    "readable plain_world ''state.json''"
    "files plain_world ''state.json'' = None"
    by (simp_all add: plain_world_def readable_def stores_def)
  have b: "files monitored_world (state_path monitored_world) = None"
    "readable monitored_world (state_path monitored_world)"
    by (simp_all add: monitored_world_facts)
  from state_round_trip [of plain_world "''state.json''" True example_url] a
  have c: "outcome (load_state ''state.json''
        (world_after (save_state ''state.json'' (state_of True) plain_world))) = Inr (state_of True)"
    "outcome (load_state ''state.json'' plain_world) = Inr JNull"
    by simp_all
  from state_round_trip [of monitored_world "''state.json''" True example_url]
    monitored_world_facts(1,2) b
  have d: "outcome (main monitored_world) =
       outcome (main (monitored_world\<lparr>files :=
         (files monitored_world)(state_path monitored_world \<mapsto> json_dumps (state_of False))\<rparr>))"
    by simp
  show ?thesis
    by (intro conjI a b c d monitored_world_facts(1,2))
qed

section \<open>The mail settings\<close>

lemma no_port_world_facts:
  "environ no_port_world ''SMTP_PORT'' = None"
  "environ no_port_world ''SMTP_SERVER'' = Some ''smtp.example.com''"
  "environ no_port_world ''SMTP_USERNAME'' = Some ''me@example.com''"
  "environ no_port_world ''SMTP_PASSWORD'' = Some ''secret''"
  "environ no_port_world ''EMAIL_TO'' = Some ''a@example.com,b@example.com''"
  "environ no_port_world ''EMAIL_FROM'' = None"
  "smtp_raises no_port_world = (\<lambda>_. None)"
  by (simp_all add: no_port_world_def plain_world_def)

text \<open>
  C8, as the spec states it: the email channel requires a port, and \<open>send_email\<close> skips
  when a required setting is missing. It does not hold for the port. In \<open>no_port_world\<close>
  the server, the user name, the password and the recipients are set and \<open>SMTP_PORT\<close> is
  not: \<open>send_email\<close> does not skip, it opens the SMTP session on port 587 and sends the
  message to both recipients.
\<close>

theorem send_email_default_port:
  "environ no_port_world ''SMTP_PORT'' = None
   \<and> send_email subject (body example_url) no_port_world =
       (Inr (), no_port_world,
        [Enter_send_email subject (body example_url),
         Smtp (Smtp_connect ''smtp.example.com'' 587),
         Smtp Smtp_starttls,
         Smtp (Smtp_login ''me@example.com'' ''secret''),
         Smtp (Smtp_sendmail ''me@example.com'' [''a@example.com'', ''b@example.com'']
                 \<lparr>msg_from = ''me@example.com'', msg_to = ''a@example.com,b@example.com'',
                  msg_subject = subject, msg_body = body example_url\<rparr>),
         Smtp Smtp_quit,
         Log Email_sent])"
proof -
  have p: "py_int no_port_world ''587'' = Inr 587"
    using py_int_587 [OF no_port_world_facts(1)] by (simp add: port_setting_def no_port_world_facts)
  have "send_email subject (body example_url) no_port_world =
       (Inr (), no_port_world,
        [Enter_send_email subject (body example_url),
         Smtp (Smtp_connect ''smtp.example.com'' 587),
         Smtp Smtp_starttls,
         Smtp (Smtp_login ''me@example.com'' ''secret''),
         Smtp (Smtp_sendmail ''me@example.com'' [''a@example.com'', ''b@example.com'']
                 \<lparr>msg_from = ''me@example.com'', msg_to = ''a@example.com,b@example.com'',
                  msg_subject = subject, msg_body = body example_url\<rparr>),
         Smtp Smtp_quit,
         Log Email_sent])"
    apply (simp add: send_email_def io_laws and_then_int_of p no_port_world_facts truthy_str_def
        Let_def)
    apply (simp add: catch_def and_then_def smtp_def log_def emit_def no_port_world_facts)
    done
  then show ?thesis by (simp add: no_port_world_facts)
qed

text \<open>
  C8, amended. The email channel requires a server host, a user name, a password and a
  list of recipients; the port is optional and defaults to 587. In every configuration
  in which one of the four required settings is unset or empty, and \<open>SMTP_PORT\<close> is unset
  or a literal that \<open>int\<close> accepts, \<open>send_email\<close> logs that it skips the email, makes no
  SMTP call and returns without error.
\<close>

theorem send_email_skip:
  assumes "py_int w (port_setting w) = Inr n"
    and "k \<in> {''SMTP_SERVER'', ''SMTP_USERNAME'', ''SMTP_PASSWORD'', ''EMAIL_TO''}"
    and "environ w k = None \<or> environ w k = Some []"
  shows "send_email s m w = (Inr (), w, [Enter_send_email s m, Log Email_incomplete])"
proof -
  from assms(2,3)
  have "\<not> list_all truthy_str [environ w ''SMTP_SERVER'', environ w ''SMTP_USERNAME'',
                                 environ w ''SMTP_PASSWORD'', environ w ''EMAIL_TO'']"
    by (auto simp add: truthy_str_def)
  with assms(1) show ?thesis by (rule send_email_incomplete)
qed

theorem send_email_skip_witness:
  "py_int plain_world (port_setting plain_world) = Inr 587
   \<and> ''EMAIL_TO'' \<in> {''SMTP_SERVER'', ''SMTP_USERNAME'', ''SMTP_PASSWORD'', ''EMAIL_TO''}
   \<and> (environ plain_world ''EMAIL_TO'' = None \<or> environ plain_world ''EMAIL_TO'' = Some [])
   \<and> send_email subject (body example_url) plain_world =
       (Inr (), plain_world, [Enter_send_email subject (body example_url), Log Email_incomplete])"
proof -
  have p: "py_int plain_world (port_setting plain_world) = Inr 587"
    by (rule py_int_587) (simp add: plain_world_def)
  have k: "''EMAIL_TO'' \<in> {''SMTP_SERVER'', ''SMTP_USERNAME'', ''SMTP_PASSWORD'', ''EMAIL_TO''}"
    by simp
  have e: "environ plain_world ''EMAIL_TO'' = None \<or> environ plain_world ''EMAIL_TO'' = Some []"
    by (simp add: plain_world_def)
  from send_email_skip [OF p k e, of subject "body example_url"] p k e
  show ?thesis by blast
qed

section \<open>The truth value of the previous state\<close>

lemma json_ascii_examples:
  "json_ascii ''{\"has_tickets\": \"false\"}'' = Some (JObj [(''has_tickets'', JStr ''false'')])"
  "json_ascii ''{\"has_tickets\": 0}'' = Some (JObj [(''has_tickets'', JInt 0)])"
  by code_simp+

lemma state_world_facts:
  "environ string_state_world ''EVENT_URL'' = Some example_url"
  "state_path string_state_world = ''state.json''"
  "files string_state_world ''state.json'' = Some ''{\"has_tickets\": \"false\"}''"
  "readable string_state_world ''state.json''"
  "http_get string_state_world = http_get plain_world"
  "environ zero_state_world ''EVENT_URL'' = Some example_url"
  "state_path zero_state_world = ''state.json''"
  "files zero_state_world ''state.json'' = Some ''{\"has_tickets\": 0}''"
  "readable zero_state_world ''state.json''"
  "http_get zero_state_world = http_get plain_world"
  by (simp_all add: string_state_world_def zero_state_world_def monitored_world_def
      plain_world_def state_path_def readable_def)

text \<open>
  The previous state is compared by its truth value, not as a boolean. Take a run with
  \<open>EVENT_URL\<close> set whose state file is read as an object that has the value \<open>v\<close> at
  \<open>has_tickets\<close>. If \<open>v\<close> is truthy (the string \<open>"false"\<close>, the number 1), \<open>main\<close> calls
  neither \<open>send_email\<close> nor \<open>send_sms\<close>, whatever the page shows. If \<open>v\<close> is falsy (0,
  \<open>null\<close>, the empty string), the run behaves as the run without the state file does: it
  ends the same way and causes the same events, but for the read of the file; and
  \<open>main\<close> calls \<open>send_email\<close> with the alert when the page is available.
\<close>

lemma previous_state_truthiness:
  assumes "environ w ''EVENT_URL'' = Some url" and "url \<noteq> []"
    and "files w (state_path w) = Some text" and "readable w (state_path w)"
    and "json_loads w text = Inr (JObj kvs)" and "map_of kvs ''has_tickets'' = Some v"
  shows "(truthy v \<longrightarrow>
            email_calls (events (main w)) = [] \<and> sms_calls (events (main w)) = [])
       \<and> (\<not> truthy v \<longrightarrow>
            outcome (main w) = outcome (main (w\<lparr>files := (files w)(state_path w := None)\<rparr>))
            \<and> (\<exists>rest. events (main w) = File_exists (state_path w) # File_read (state_path w) # rest
                  \<and> events (main (w\<lparr>files := (files w)(state_path w := None)\<rparr>))
                      = File_exists (state_path w) # rest)
            \<and> (page_available w url \<longrightarrow>
                  email_calls (events (main w)) = [(subject, body url)]))"
proof -
  let ?p = "state_path w"
  let ?w = "w\<lparr>files := (files w)(?p := None)\<rparr>"
  from assms(6) have ne: "kvs \<noteq> []" by auto
  have l: "load_state ?p w = (Inr (JObj kvs), w, [File_exists ?p, File_read ?p])"
    using assms(3-5) by (rule load_state_parsed)
  have g: "py_get (if truthy (JObj kvs) then JObj kvs else JObj []) ''has_tickets'' = Inr v"
    using ne assms(6) by (simp add: dict_get_def)
  note m = main_after_load [OF assms(1,2) l g]
  have calls: "email_calls (events (main w)) =
        (if page_available w url \<and> \<not> truthy v then [(subject, body url)] else [])"
      "truthy v \<Longrightarrow> sms_calls (events (main w)) = []"
    by (simp_all add: m(3) email_calls_append sms_calls_append after_load_calls)
  have l': "load_state ?p ?w = (Inr JNull, ?w, [File_exists ?p])"
    by (simp add: load_state_missing)
  have same: "outcome (main w) = outcome (main ?w)
       \<and> (\<exists>rest. events (main w) = [File_exists ?p, File_read ?p] @ rest
              \<and> events (main ?w) = [File_exists ?p] @ rest)"
    if "\<not> truthy v"
    using that g
    by (intro main_agree [OF assms(1,2) agree_update l l', of v JNull])
       (simp_all add: dict_get_def)
  show ?thesis
    using calls same by auto
qed

lemma previous_state_examples:
  "environ string_state_world ''EVENT_URL'' = Some example_url \<and> example_url \<noteq> []
   \<and> files string_state_world (state_path string_state_world) = Some ''{\"has_tickets\": \"false\"}''
   \<and> readable string_state_world (state_path string_state_world)
   \<and> json_loads string_state_world ''{\"has_tickets\": \"false\"}''
        = Inr (JObj [(''has_tickets'', JStr ''false'')])
   \<and> map_of [(''has_tickets'', JStr ''false'')] ''has_tickets'' = Some (JStr ''false'')
   \<and> truthy (JStr ''false'')
   \<and> page_available string_state_world example_url
   \<and> email_calls (events (main string_state_world)) = []
   \<and> sms_calls (events (main string_state_world)) = []
   \<and> environ zero_state_world ''EVENT_URL'' = Some example_url
   \<and> files zero_state_world (state_path zero_state_world) = Some ''{\"has_tickets\": 0}''
   \<and> readable zero_state_world (state_path zero_state_world)
   \<and> json_loads zero_state_world ''{\"has_tickets\": 0}'' = Inr (JObj [(''has_tickets'', JInt 0)])
   \<and> map_of [(''has_tickets'', JInt 0)] ''has_tickets'' = Some (JInt 0)
   \<and> \<not> truthy (JInt 0)
   \<and> page_available zero_state_world example_url
   \<and> email_calls (events (main zero_state_world)) = [(subject, body example_url)]"
proof -
  have s: "files string_state_world (state_path string_state_world) = Some ''{\"has_tickets\": \"false\"}''"
    "readable string_state_world (state_path string_state_world)"
    "json_loads string_state_world ''{\"has_tickets\": \"false\"}''
        = Inr (JObj [(''has_tickets'', JStr ''false'')])"
    "map_of [(''has_tickets'', JStr ''false'')] ''has_tickets'' = Some (JStr ''false'')"
    by (simp_all add: state_world_facts json_loads_def json_ascii_examples)
  have z: "files zero_state_world (state_path zero_state_world) = Some ''{\"has_tickets\": 0}''"
    "readable zero_state_world (state_path zero_state_world)"
    "json_loads zero_state_world ''{\"has_tickets\": 0}'' = Inr (JObj [(''has_tickets'', JInt 0)])"
    "map_of [(''has_tickets'', JInt 0)] ''has_tickets'' = Some (JInt 0)"
    by (simp_all add: state_world_facts json_loads_def json_ascii_examples)
  have p: "page_available string_state_world example_url"
    "page_available zero_state_world example_url"
    by (rule page_available_plain, rule state_world_facts)+
  have t: "truthy (JStr ''false'')" "\<not> truthy (JInt 0)"
    by simp_all
  from previous_state_truthiness [OF state_world_facts(1) monitored_world_facts(2) s] t(1)
  have a: "email_calls (events (main string_state_world)) = []"
    "sms_calls (events (main string_state_world)) = []"
    by simp_all
  from previous_state_truthiness [OF state_world_facts(6) monitored_world_facts(2) z] t(2) p(2)
  have b: "email_calls (events (main zero_state_world)) = [(subject, body example_url)]"
    by simp
  show ?thesis
    by (intro conjI state_world_facts(1,6) monitored_world_facts(2) s z t p a b)
qed



end
